theory Spec2Isabelle
  imports Complex_Main
begin

section \<open>osmosis2geojson: the line-driven converter\<close>

text \<open>
  The script reads an Osmosis polygon filter file line by line. Each line is handed to
  the current examiner function, which updates the GeoJSON object under construction
  and returns the examiner for the next line, or \<open>null\<close> when the file is not in the
  expected format. The embedding follows \<open>osmosis2geojson.js\<close> function by function;
  its second copy differs only in the driver (a promise instead of a callback).
\<close>

subsection \<open>The host's number functions\<close>

text \<open>
  \<open>Number.parseFloat\<close>, \<open>Number.isNaN\<close> and \<open>Number.prototype.toFixed\<close> belong to the
  JavaScript host, not to the script. The embedding takes them as a parameter, over any
  type \<open>'n\<close> of number values, so every general theorem below holds whatever the host
  computes for them.
\<close>

record 'n host =
  parseFloat :: "string \<Rightarrow> 'n"
  isNaN :: "'n \<Rightarrow> bool"
  toFixed :: "'n \<Rightarrow> nat \<Rightarrow> string"

subsection \<open>Constants\<close>

definition PRECISION :: nat where
  "PRECISION = 12"

definition END :: string where
  "END = ''END''"

definition SUBTRACT :: string where
  "SUBTRACT = ''!''"

subsection \<open>The GeoJSON object\<close>

text \<open>
  \<open>geometry.type\<close> is either \<open>"Polygon"\<close>, and then \<open>geometry.coordinates\<close> is an array
  of rings, or \<open>"MultiPolygon"\<close>, and then it is an array of polygons, each an array of
  rings. A ring is an array of \<open>[lon, lat]\<close> pairs. \<open>properties.name\<close> is absent until
  the first line has been read.
\<close>

type_synonym 'n position = "'n \<times> 'n"

type_synonym 'n ring = "'n position list"

datatype 'n geometry = Polygon "'n ring list" | MultiPolygon "'n ring list list"

record 'n feature =
  geometry :: "'n geometry"
  name :: "string option"

text \<open>What \<open>console.error\<close> has been given.\<close>

datatype diagnostic =
    NullInput
  | InvalidPolygonCoordinates
  | CouldNotParseFloat string string

text \<open>The GeoJSON object together with the lines written to the console so far.\<close>

record 'n store =
  gjObj :: "'n feature"
  console :: "diagnostic list"

text \<open>
  A call either completes with a value or throws: reading a property of \<open>undefined\<close>
  (the last element of an empty array) is a \<open>TypeError\<close>.
\<close>

datatype 'a completion = Normal 'a | TypeError

text \<open>The four examiner functions, as values a call can return.\<close>

datatype examiner = FileExaminer | PolygonExaminer | CoordinateExaminer | EndExaminer

definition setGeometry :: "'n geometry \<Rightarrow> 'n store \<Rightarrow> 'n store" where
  "setGeometry g s = s\<lparr>gjObj := (gjObj s)\<lparr>geometry := g\<rparr>\<rparr>"

definition logError :: "diagnostic \<Rightarrow> 'n store \<Rightarrow> 'n store" where
  "logError d s = s\<lparr>console := console s @ [d]\<rparr>"

subsection \<open>Array updates\<close>

text \<open>
  The statement that opens a ring, written out three times in the script (in
  \<open>endExaminer\<close>, \<open>polygonExaminer\<close> and \<open>coordinateExaminer\<close>):
  \<^verbatim>\<open>
  if (gjObj.geometry.type === MULTIPOLYGON) {
    gjObj.geometry.coordinates[gjObj.geometry.coordinates.length - 1].push([]);
  } else {
    gjObj.geometry.coordinates.push([]);
  }
  \<close>
\<close>

definition pushRing :: "'n geometry \<Rightarrow> 'n geometry completion" where
  "pushRing g =
     (case g of
        MultiPolygon ps \<Rightarrow>
          (if ps = [] then TypeError
           else Normal (MultiPolygon (butlast ps @ [last ps @ [[]]])))
      | Polygon rs \<Rightarrow> Normal (Polygon (rs @ [[]])))"

text \<open>The statement of \<open>readCoordinatePair\<close> that appends a pair to the last ring.\<close>

definition pushPair :: "'n position \<Rightarrow> 'n geometry \<Rightarrow> 'n geometry completion" where
  "pushPair p g =
     (case g of
        MultiPolygon ps \<Rightarrow>
          (if ps = [] then TypeError
           else let endPoly = last ps in
             if endPoly = [] then TypeError
             else Normal (MultiPolygon
                    (butlast ps @ [butlast endPoly @ [last endPoly @ [p]]])))
      | Polygon rs \<Rightarrow>
          (if rs = [] then TypeError
           else Normal (Polygon (butlast rs @ [last rs @ [p]]))))"

subsection \<open>Splitting a line\<close>

text \<open>
  \<open>fileLine.split(/  +/g, 3)\<close>: the separators are the maximal runs of two or more
  spaces, a single space stays inside its token, a separator at either end of the line
  leaves an empty token there, and at most three tokens are kept.
\<close>

function splitSpaces :: "string \<Rightarrow> string \<Rightarrow> string list" where
  "splitSpaces tok [] = [tok]"
| "splitSpaces tok [c] = [tok @ [c]]"
| "splitSpaces tok (c # d # cs) =
     (if c = CHR '' '' \<and> d = CHR '' ''
      then tok # splitSpaces [] (dropWhile (\<lambda>x. x = CHR '' '') cs)
      else splitSpaces (tok @ [c]) (d # cs))"
  by pat_completeness auto
termination
  by (relation "measure (\<lambda>(tok, s). length s)")
     (auto simp: le_imp_less_Suc length_dropWhile_le less_Suc_eq_le le_SucI)

definition splitLine3 :: "string \<Rightarrow> string list" where
  "splitLine3 fileLine = take 3 (splitSpaces [] fileLine)"

subsection \<open>Reading a coordinate pair\<close>

definition readCoordinatePair ::
  "'n host \<Rightarrow> string \<Rightarrow> 'n store \<Rightarrow> (bool \<times> 'n store) completion" where
  "readCoordinatePair h fileLine s =
     (let splitLine = splitLine3 fileLine in
      if length splitLine > 2 then
        let lonVal = parseFloat h (splitLine ! 1);
            latVal = parseFloat h (splitLine ! 2)
        in if isNaN h lonVal \<or> isNaN h latVal
           then Normal (False, logError (CouldNotParseFloat (splitLine ! 1) (splitLine ! 2)) s)
           else (case pushPair (lonVal, latVal) (geometry (gjObj s)) of
                   TypeError \<Rightarrow> TypeError
                 | Normal g \<Rightarrow> Normal (True, setGeometry g s))
      else Normal (False, s))"

subsection \<open>Closing a ring\<close>

text \<open>The ring that \<open>ensureClosingCoordinates\<close> looks up: the last ring of the last polygon.\<close>

definition lastRing :: "'n geometry \<Rightarrow> 'n ring completion" where
  "lastRing g =
     (case g of
        MultiPolygon ps \<Rightarrow>
          (if ps = [] then TypeError
           else if last ps = [] then TypeError
           else Normal (last (last ps)))
      | Polygon rs \<Rightarrow> (if rs = [] then TypeError else Normal (last rs)))"

text \<open>\<open>ring.push(firstPair)\<close> on that ring.\<close>

definition setLastRing :: "'n ring \<Rightarrow> 'n geometry \<Rightarrow> 'n geometry" where
  "setLastRing r g =
     (case g of
        MultiPolygon ps \<Rightarrow> MultiPolygon (butlast ps @ [butlast (last ps) @ [r]])
      | Polygon rs \<Rightarrow> Polygon (butlast rs @ [r]))"

text \<open>The comparison of two pairs by their \<open>toFixed(PRECISION)\<close> texts.\<close>

definition differFixed :: "'n host \<Rightarrow> 'n position \<Rightarrow> 'n position \<Rightarrow> bool" where
  "differFixed h firstPair lastPair =
     (toFixed h (fst firstPair) PRECISION \<noteq> toFixed h (fst lastPair) PRECISION \<or>
      toFixed h (snd firstPair) PRECISION \<noteq> toFixed h (snd lastPair) PRECISION)"

definition ensureClosingCoordinates ::
  "'n host \<Rightarrow> 'n feature \<Rightarrow> (bool \<times> 'n feature) completion" where
  "ensureClosingCoordinates h gj =
     (case lastRing (geometry gj) of
        TypeError \<Rightarrow> TypeError
      | Normal ring \<Rightarrow>
          if length ring > 2 then
            let firstPair = ring ! 0;
                lastPair = ring ! (length ring - 1)
            in if differFixed h firstPair lastPair
               then Normal (True,
                   gj\<lparr>geometry := setLastRing (ring @ [firstPair]) (geometry gj)\<rparr>)
               else Normal (True, gj)
          else Normal (False, gj))"

subsection \<open>The examiners\<close>

definition fileExaminer ::
  "string \<Rightarrow> 'n store \<Rightarrow> (examiner option \<times> 'n store) completion" where
  "fileExaminer inLine s =
     (if inLine \<noteq> []
      then Normal (Some PolygonExaminer,
          s\<lparr>gjObj := (gjObj s)\<lparr>name := Some inLine\<rparr>\<rparr>)
      else Normal (None, logError NullInput s))"

definition endExaminer ::
  "string \<Rightarrow> 'n store \<Rightarrow> (examiner option \<times> 'n store) completion" where
  "endExaminer inLine s =
     (if inLine = END then Normal (Some EndExaminer, s)
      else if take 1 inLine = SUBTRACT then
        (case pushRing (geometry (gjObj s)) of
           TypeError \<Rightarrow> TypeError
         | Normal g \<Rightarrow> Normal (Some PolygonExaminer, setGeometry g s))
      else
        (case geometry (gjObj s) of
           Polygon rs \<Rightarrow>
             Normal (Some PolygonExaminer, setGeometry (MultiPolygon ([rs] @ [[[]]])) s)
         | MultiPolygon ps \<Rightarrow>
             Normal (Some PolygonExaminer, setGeometry (MultiPolygon (ps @ [[[]]])) s)))"

definition polygonExaminer ::
  "'n host \<Rightarrow> string \<Rightarrow> 'n store \<Rightarrow> (examiner option \<times> 'n store) completion" where
  "polygonExaminer h inLine s =
     (if inLine = END then Normal (Some EndExaminer, s)
      else
        (case readCoordinatePair h inLine s of
           TypeError \<Rightarrow> TypeError
         | Normal (True, s') \<Rightarrow> Normal (Some CoordinateExaminer, s')
         | Normal (False, s') \<Rightarrow>
             if inLine \<noteq> [] then
               (case pushRing (geometry (gjObj s')) of
                  TypeError \<Rightarrow> TypeError
                | Normal g \<Rightarrow> Normal (Some CoordinateExaminer, setGeometry g s'))
             else Normal (None, logError NullInput s')))"

definition coordinateExaminer ::
  "'n host \<Rightarrow> string \<Rightarrow> 'n store \<Rightarrow> (examiner option \<times> 'n store) completion" where
  "coordinateExaminer h inLine s =
     (if inLine = END then
        (case ensureClosingCoordinates h (gjObj s) of
           TypeError \<Rightarrow> TypeError
         | Normal (False, gj) \<Rightarrow> Normal (None,
             logError InvalidPolygonCoordinates (s\<lparr>gjObj := gj\<rparr>))
         | Normal (True, gj) \<Rightarrow> Normal (Some EndExaminer, s\<lparr>gjObj := gj\<rparr>))
      else
        (case readCoordinatePair h inLine s of
           TypeError \<Rightarrow> TypeError
         | Normal (True, s') \<Rightarrow> Normal (Some CoordinateExaminer, s')
         | Normal (False, s') \<Rightarrow>
             if inLine \<noteq> [] then
               (case pushRing (geometry (gjObj s')) of
                  TypeError \<Rightarrow> TypeError
                | Normal g \<Rightarrow> Normal (Some PolygonExaminer, setGeometry g s'))
             else Normal (None, logError NullInput s')))"

subsection \<open>The driver\<close>

text \<open>\<open>examiner(line, gjObj)\<close>, for the examiner the variable holds.\<close>

definition examine ::
  "'n host \<Rightarrow> examiner \<Rightarrow> string \<Rightarrow> 'n store \<Rightarrow> (examiner option \<times> 'n store) completion" where
  "examine h ex inLine s =
     (case ex of
        FileExaminer \<Rightarrow> fileExaminer inLine s
      | PolygonExaminer \<Rightarrow> polygonExaminer h inLine s
      | CoordinateExaminer \<Rightarrow> coordinateExaminer h inLine s
      | EndExaminer \<Rightarrow> endExaminer inLine s)"

text \<open>
  What the caller of \<open>readLines\<close> gets: the GeoJSON object, the error "Processing
  terminated", an exception nobody catches, or nothing at all when the file has no line
  (the line callback never runs).
\<close>

datatype 'n outcome = Resolved "'n feature" | Rejected | Uncaught | Pending

text \<open>
  The callback given to \<open>lineReader.eachLine\<close>, run over the lines of the file; \<open>last\<close>
  holds at the final line. After \<open>null\<close> the error reaches the caller, which exits the
  process, so no later line is examined.
\<close>

fun eachLine :: "'n host \<Rightarrow> examiner \<Rightarrow> 'n store \<Rightarrow> string list \<Rightarrow> 'n outcome" where
  "eachLine h ex s [] = Pending"
| "eachLine h ex s (line # rest) =
     (case examine h ex line s of
        TypeError \<Rightarrow> Uncaught
      | Normal (None, s') \<Rightarrow> Rejected
      | Normal (Some ex', s') \<Rightarrow>
          if rest = [] then Resolved (gjObj s') else eachLine h ex' s' rest)"

definition initialStore :: "'n store" where
  "initialStore = \<lparr>gjObj = \<lparr>geometry = Polygon [], name = None\<rparr>,
      console = []\<rparr>"

definition readLines :: "'n host \<Rightarrow> string list \<Rightarrow> 'n outcome" where
  "readLines h lines = eachLine h FileExaminer initialStore lines"

text \<open>
  The same loop, giving the examiner and the store reached after the lines instead of
  the caller's result: \<open>Normal (None, s)\<close> once an examiner has returned \<open>null\<close>.
\<close>

fun feed ::
  "'n host \<Rightarrow> examiner \<Rightarrow> 'n store \<Rightarrow> string list \<Rightarrow> (examiner option \<times> 'n store) completion" where
  "feed h ex s [] = Normal (Some ex, s)"
| "feed h ex s (line # rest) =
     (case examine h ex line s of
        TypeError \<Rightarrow> TypeError
      | Normal (None, s') \<Rightarrow> Normal (None, s')
      | Normal (Some ex', s') \<Rightarrow> feed h ex' s' rest)"

subsection \<open>A host for concrete runs\<close>

text \<open>
  A model of the host's functions on which examples are run. A number is \<open>NaN\<close>, an
  infinity, or a finite value, kept as the exact value of its decimal literal (the host
  rounds that value to the nearest binary64 number, which changes nothing for literals
  such as \<open>0.0\<close>, \<open>1.0\<close> or \<open>0.5\<close> that binary64 represents exactly). Characters
  are bytes, so the white space skipped before a number is the ASCII white space.
\<close>

datatype number = NaN | PosInfinity | NegInfinity | Finite rat

definition isWhiteSpace :: "char \<Rightarrow> bool" where
  "isWhiteSpace c = (c \<in> set [CHR 0x09, CHR 0x0A, CHR 0x0B, CHR 0x0C, CHR 0x0D, CHR 0x20])"

definition isDecimalDigit :: "char \<Rightarrow> bool" where
  "isDecimalDigit c = (48 \<le> (of_char c :: int) \<and> (of_char c :: int) \<le> 57)"

definition digitsValue :: "string \<Rightarrow> int" where
  "digitsValue ds = foldl (\<lambda>a c. 10 * a + (of_char c - 48)) 0 ds"

text \<open>The exponent part that may follow the digits: \<open>e\<close> or \<open>E\<close>, a sign, digits.\<close>

definition exponentPart :: "string \<Rightarrow> int" where
  "exponentPart s =
     (case s of
        [] \<Rightarrow> 0
      | c # t \<Rightarrow>
          if c = CHR ''e'' \<or> c = CHR ''E'' then
            (case t of
               [] \<Rightarrow> 0
             | d # u \<Rightarrow>
                 if d = CHR ''-'' then - digitsValue (takeWhile isDecimalDigit u)
                 else if d = CHR ''+'' then digitsValue (takeWhile isDecimalDigit u)
                 else digitsValue (takeWhile isDecimalDigit t))
          else 0)"

definition scale10 :: "rat \<Rightarrow> int \<Rightarrow> rat" where
  "scale10 q e = (if 0 \<le> e then q * 10 ^ nat e else q / 10 ^ nat (- e))"

text \<open>
  The longest prefix that is an unsigned decimal literal: \<open>Infinity\<close>, or digits with
  an optional fraction and exponent; \<open>NaN\<close> when there is none.
\<close>

definition unsignedLiteral :: "string \<Rightarrow> number" where
  "unsignedLiteral s =
     (if take 8 s = ''Infinity'' then PosInfinity
      else
        let ip = takeWhile isDecimalDigit s;
            r1 = dropWhile isDecimalDigit s;
            hasPoint = (take 1 r1 = ''.'');
            fp = (if hasPoint then takeWhile isDecimalDigit (drop 1 r1) else []);
            r2 = (if hasPoint then dropWhile isDecimalDigit (drop 1 r1) else r1)
        in if ip = [] \<and> fp = [] then NaN
           else Finite (scale10 (of_int (digitsValue (ip @ fp)))
                          (exponentPart r2 - int (length fp))))"

definition negate :: "number \<Rightarrow> number" where
  "negate x =
     (case x of
        NaN \<Rightarrow> NaN
      | PosInfinity \<Rightarrow> NegInfinity
      | NegInfinity \<Rightarrow> PosInfinity
      | Finite q \<Rightarrow> Finite (- q))"

definition jsParseFloat :: "string \<Rightarrow> number" where
  "jsParseFloat s =
     (let t = dropWhile isWhiteSpace s in
      if take 1 t = ''-'' then negate (unsignedLiteral (drop 1 t))
      else if take 1 t = ''+'' then unsignedLiteral (drop 1 t)
      else unsignedLiteral t)"

definition jsIsNaN :: "number \<Rightarrow> bool" where
  "jsIsNaN x = (x = NaN)"

definition jsIsFinite :: "number \<Rightarrow> bool" where
  "jsIsFinite x = (case x of Finite q \<Rightarrow> True | _ \<Rightarrow> False)"

text \<open>The decimal digits of an integer that is not negative.\<close>

function decimal :: "int \<Rightarrow> string" where
  "decimal n =
     (if n < 10 then [char_of (48 + n)]
      else decimal (n div 10) @ [char_of (48 + n mod 10)])"
  by pat_completeness auto
termination
  by (relation "measure nat") auto

declare decimal.simps [simp del]

text \<open>
  \<open>x.toFixed(f)\<close> for a finite \<open>x\<close> below \<open>10^21\<close> in size: the integer \<open>n\<close> nearest to
  \<open>x * 10^f\<close> (the larger one on a tie), written with \<open>f\<close> digits after the point, and
  a minus sign when \<open>x < 0\<close>.
\<close>

definition fixedText :: "rat \<Rightarrow> nat \<Rightarrow> string" where
  "fixedText q f =
     (let n = \<lfloor>\<bar>q\<bar> * 10 ^ f + 1 / 2\<rfloor>;
          ds = decimal n;
          m = replicate (Suc f - length ds) (CHR ''0'') @ ds;
          k = length m - f
      in (if q < 0 then ''-'' else []) @
         (if f = 0 then m else take k m @ ''.'' @ drop k m))"

text \<open>
  From \<open>10^21\<close> on \<open>toFixed\<close> gives the number's ordinary text, in exponent notation.
  The model writes the value to 17 significant digits.
\<close>

definition exponentText :: "rat \<Rightarrow> string" where
  "exponentText q =
     (let e = length (decimal \<lfloor>\<bar>q\<bar>\<rfloor>) - 1;
          n = \<lfloor>\<bar>q\<bar> / 10 ^ (e - 16) + 1 / 2\<rfloor>;
          ds = rev (dropWhile (\<lambda>c. c = CHR ''0'') (rev (decimal n)))
      in (if q < 0 then ''-'' else []) @ take 1 ds @
         (if length ds > 1 then ''.'' @ drop 1 ds else []) @ ''e+'' @ decimal (int e))"

definition jsToFixed :: "number \<Rightarrow> nat \<Rightarrow> string" where
  "jsToFixed x f =
     (case x of
        NaN \<Rightarrow> ''NaN''
      | PosInfinity \<Rightarrow> ''Infinity''
      | NegInfinity \<Rightarrow> ''-Infinity''
      | Finite q \<Rightarrow> if \<bar>q\<bar> \<ge> 10 ^ 21 then exponentText q else fixedText q f)"

definition js :: "number host" where
  "js = \<lparr>parseFloat = jsParseFloat, isNaN = jsIsNaN, toFixed = jsToFixed\<rparr>"

subsection \<open>Notions used in the statements\<close>

text \<open>\<open>gjObj.geometry.type === MULTIPOLYGON\<close>.\<close>

fun isMultiPolygon :: "'n geometry \<Rightarrow> bool" where
  "isMultiPolygon (Polygon rs) = False"
| "isMultiPolygon (MultiPolygon ps) = True"

text \<open>All rings of a geometry, in the order in which they were opened.\<close>

definition allRings :: "'n geometry \<Rightarrow> 'n ring list" where
  "allRings g = (case g of Polygon rs \<Rightarrow> rs | MultiPolygon ps \<Rightarrow> concat ps)"

text \<open>
  A line is a coordinate line when it has a second and a third token and the host reads
  a number other than \<open>NaN\<close> from each; \<open>pairOf\<close> is the pair it then stands for, and
  \<open>parseErrors\<close> is what \<open>readCoordinatePair\<close> writes to the console for a line that
  is not one.
\<close>

definition isCoordinatePair :: "'n host \<Rightarrow> string \<Rightarrow> bool" where
  "isCoordinatePair h fileLine =
     (length (splitLine3 fileLine) > 2 \<and>
      \<not> isNaN h (parseFloat h (splitLine3 fileLine ! 1)) \<and>
      \<not> isNaN h (parseFloat h (splitLine3 fileLine ! 2)))"

definition pairOf :: "'n host \<Rightarrow> string \<Rightarrow> 'n position" where
  "pairOf h fileLine =
     (parseFloat h (splitLine3 fileLine ! 1), parseFloat h (splitLine3 fileLine ! 2))"

definition parseErrors :: "string \<Rightarrow> diagnostic list" where
  "parseErrors fileLine =
     (if length (splitLine3 fileLine) > 2
      then [CouldNotParseFloat (splitLine3 fileLine ! 1) (splitLine3 fileLine ! 2)]
      else [])"

text \<open>
  What holds of the last ring while each examiner is current: none yet for
  \<open>fileExaminer\<close>; none or an empty one for \<open>polygonExaminer\<close>; some ring for
  \<open>coordinateExaminer\<close>; none, an empty one or one with more than two pairs for
  \<open>endExaminer\<close>.
\<close>

fun ringInv :: "examiner \<Rightarrow> 'n geometry \<Rightarrow> bool" where
  "ringInv FileExaminer g = (g = Polygon [])"
| "ringInv PolygonExaminer g = (g = Polygon [] \<or> lastRing g = Normal [])"
| "ringInv CoordinateExaminer g = (lastRing g \<noteq> TypeError)"
| "ringInv EndExaminer g =
     (g = Polygon [] \<or>
      (case lastRing g of TypeError \<Rightarrow> False | Normal r \<Rightarrow> r
          = [] \<or> length r > 2))"

text \<open>
  The rings \<open>fr\<close> are the first rings of the geometry, and while a ring is being read
  the ring under construction is not among them.
\<close>

fun keepsRings :: "'n ring list \<Rightarrow> examiner \<Rightarrow> 'n geometry \<Rightarrow> bool" where
  "keepsRings fr FileExaminer g = False"
| "keepsRings fr EndExaminer g = (take (length fr) (allRings g) = fr)"
| "keepsRings fr ex g = (take (length fr) (allRings g) = fr \<and> length fr < length (allRings g))"

subsection \<open>Files made of outer-ring groups\<close>

text \<open>
  The layout of a polygon filter file, as the format describes it, written down
  independently of the examiners. A section is a header line, its coordinate lines and
  the end marker. An outer-ring group is the section of an outer ring followed by the
  sections of its holes, whose headers begin with the subtract marker. A file is the
  name, the groups and a final end marker.
\<close>

type_synonym ringSection = "string \<times> string list"

type_synonym ringGroup = "ringSection \<times> ringSection list"

definition sectionLines :: "ringSection \<Rightarrow> string list" where
  "sectionLines sec = fst sec # snd sec @ [END]"

definition groupLines :: "ringGroup \<Rightarrow> string list" where
  "groupLines grp = sectionLines (fst grp) @ concat (map sectionLines (snd grp))"

definition polyFile :: "string \<Rightarrow> ringGroup list \<Rightarrow> string list" where
  "polyFile nm groups = nm # concat (map groupLines groups) @ [END]"

text \<open>
  A section is well formed when its header is a non-empty line other than the end
  marker that is not itself a coordinate line, and it has at least three lines, all
  coordinate lines.
\<close>

definition wfSection :: "'n host \<Rightarrow> ringSection \<Rightarrow> bool" where
  "wfSection h sec =
     (fst sec \<noteq> [] \<and> fst sec \<noteq> END \<and> \<not> isCoordinatePair h (fst sec) \<and>
      list_all (isCoordinatePair h) (snd sec) \<and> length (snd sec) \<ge> 3)"

definition wfHole :: "'n host \<Rightarrow> ringSection \<Rightarrow> bool" where
  "wfHole h sec = (wfSection h sec \<and> take 1 (fst sec) = SUBTRACT)"

definition wfGroup :: "'n host \<Rightarrow> ringGroup \<Rightarrow> bool" where
  "wfGroup h grp =
     (wfSection h (fst grp) \<and> take 1 (fst (fst grp)) \<noteq> SUBTRACT \<and>
      list_all (wfHole h) (snd grp))"

text \<open>
  The ring a section stands for: its pairs, followed by a copy of the first when first
  and last differ in their \<open>toFixed(12)\<close> texts. A group stands for the rings of its
  sections.
\<close>

definition closedRing :: "'n host \<Rightarrow> 'n ring \<Rightarrow> 'n ring" where
  "closedRing h r = (if differFixed h (hd r) (last r) then r @ [hd r] else r)"

definition sectionRing :: "'n host \<Rightarrow> ringSection \<Rightarrow> 'n ring" where
  "sectionRing h sec = closedRing h (map (pairOf h) (snd sec))"

definition groupRings :: "'n host \<Rightarrow> ringGroup \<Rightarrow> 'n ring list" where
  "groupRings h grp = map (sectionRing h) (fst grp # snd grp)"

text \<open>
  From examiner \<open>ex\<close> and store \<open>s\<close> the lines are read without failure, leave examiner
  \<open>ex'\<close> in charge and change nothing of the GeoJSON object but its geometry, which
  becomes \<open>g'\<close>.
\<close>

definition runsTo ::
  "'n host \<Rightarrow> examiner \<Rightarrow> 'n store \<Rightarrow> string list \<Rightarrow> examiner \<Rightarrow> 'n geometry \<Rightarrow> bool" where
  "runsTo h ex s ls ex' g' =
     (\<exists>s'. feed h ex s ls = Normal (Some ex', s') \<and>
           gjObj s' = (gjObj s)\<lparr>geometry := g'\<rparr>)"

text \<open>The polygons of a geometry: a Polygon is its only one.\<close>

fun polygons :: "'n geometry \<Rightarrow> 'n ring list list" where
  "polygons (Polygon rs) = [rs]"
| "polygons (MultiPolygon ps) = ps"


section \<open>Properties\<close>

subsection \<open>Basic facts about the loop and the examiners\<close>

lemma feed_append:
  "feed h ex s (xs @ ys) =
     (case feed h ex s xs of
        TypeError \<Rightarrow> TypeError
      | Normal (None, s') \<Rightarrow> Normal (None, s')
      | Normal (Some ex', s') \<Rightarrow> feed h ex' s' ys)"
  by (induction xs arbitrary: ex s) (auto split: completion.splits option.splits)

lemma readCoordinatePair_eq:
  "readCoordinatePair h l s =
     (if isCoordinatePair h l
      then (case pushPair (pairOf h l) (geometry (gjObj s)) of
              TypeError \<Rightarrow> TypeError
            | Normal g \<Rightarrow> Normal (True, setGeometry g s))
      else Normal (False, s\<lparr>console := console s @ parseErrors l\<rparr>))"
  by (simp add: readCoordinatePair_def isCoordinatePair_def pairOf_def parseErrors_def
      Let_def logError_def)

lemma polygonExaminer_eq:
  "polygonExaminer h l s =
     (if l = END then Normal (Some EndExaminer, s)
      else if isCoordinatePair h l then
        (case pushPair (pairOf h l) (geometry (gjObj s)) of
           TypeError \<Rightarrow> TypeError
         | Normal g \<Rightarrow> Normal (Some CoordinateExaminer, setGeometry g s))
      else if l \<noteq> [] then
        (case pushRing (geometry (gjObj s)) of
           TypeError \<Rightarrow> TypeError
         | Normal g \<Rightarrow>
             Normal (Some CoordinateExaminer,
                     setGeometry g (s\<lparr>console := console s @ parseErrors l\<rparr>)))
      else Normal (None,
          logError NullInput (s\<lparr>console := console s @ parseErrors l\<rparr>)))"
  by (simp add: polygonExaminer_def readCoordinatePair_eq split: completion.splits)

lemma coordinateExaminer_eq:
  "coordinateExaminer h l s =
     (if l = END then
        (case ensureClosingCoordinates h (gjObj s) of
           TypeError \<Rightarrow> TypeError
         | Normal (b, gj) \<Rightarrow>
             if b then Normal (Some EndExaminer, s\<lparr>gjObj := gj\<rparr>)
             else Normal (None, logError InvalidPolygonCoordinates (s\<lparr>gjObj := gj\<rparr>)))
      else if isCoordinatePair h l then
        (case pushPair (pairOf h l) (geometry (gjObj s)) of
           TypeError \<Rightarrow> TypeError
         | Normal g \<Rightarrow> Normal (Some CoordinateExaminer, setGeometry g s))
      else if l \<noteq> [] then
        (case pushRing (geometry (gjObj s)) of
           TypeError \<Rightarrow> TypeError
         | Normal g \<Rightarrow>
             Normal (Some PolygonExaminer,
                     setGeometry g (s\<lparr>console := console s @ parseErrors l\<rparr>)))
      else Normal (None,
          logError NullInput (s\<lparr>console := console s @ parseErrors l\<rparr>)))"
  by (simp add: coordinateExaminer_def readCoordinatePair_eq split: completion.splits bool.splits)

lemma gj_simps [simp]:
  "gjObj (setGeometry g s) = (gjObj s)\<lparr>geometry := g\<rparr>"
  "console (setGeometry g s) = console s"
  "gjObj (logError d s) = gjObj s"
  "console (logError d s) = console s @ [d]"
  by (simp_all add: setGeometry_def logError_def)

lemma eachLine_feed:
  "ls \<noteq> [] \<Longrightarrow>
   eachLine h ex s ls =
     (case feed h ex s ls of
        TypeError \<Rightarrow> Uncaught
      | Normal (None, s') \<Rightarrow> Rejected
      | Normal (Some ex', s') \<Rightarrow> Resolved (gjObj s'))"
proof (induction ls arbitrary: ex s)
  case Nil
  then show ?case by simp
next
  case (Cons l ls)
  show ?case
  proof (cases "ls = []")
    case True
    then show ?thesis by (auto split: completion.splits option.splits)
  next
    case False
    then show ?thesis using Cons.IH by (auto split: completion.splits option.splits)
  qed
qed


subsection \<open>Ring closure\<close>

lemma lastRing_setLastRing:
  "lastRing g = Normal r \<Longrightarrow> lastRing (setLastRing r' g) = Normal r'"
  by (cases g) (auto simp: lastRing_def setLastRing_def split: if_splits)

lemma differFixed_same: "\<not> differFixed h p p"
  by (simp add: differFixed_def)

lemma ensureClosingCoordinates_long:
  assumes "lastRing (geometry gj) = Normal ring" and "length ring > 2"
  shows "ensureClosingCoordinates h gj =
           (if differFixed h (hd ring) (last ring)
            then Normal (True,
                gj\<lparr>geometry := setLastRing (ring @ [hd ring]) (geometry gj)\<rparr>)
            else Normal (True, gj))"
proof -
  from assms(2) have ne: "ring \<noteq> []" by auto
  show ?thesis
    using assms ne by (simp add: ensureClosingCoordinates_def Let_def hd_conv_nth last_conv_nth)
qed

lemma ensureClosingCoordinates_short:
  assumes "lastRing (geometry gj) = Normal ring" and "length ring \<le> 2"
  shows "ensureClosingCoordinates h gj = Normal (False, gj)"
  unfolding ensureClosingCoordinates_def using assms by simp

text \<open>
  Claim C6. Ring closure is idempotent. Let the ring that \<open>ensureClosingCoordinates\<close>
  looks up have more than two pairs. If its first and last pair are the same value, the
  call returns \<open>true\<close> and leaves the GeoJSON object as it is. If they differ in the
  \<open>toFixed(12)\<close> text of either axis,
      the call returns \<open>true\<close> and the ring has become
  the old ring followed by one copy of its first pair; a second call on the result
  returns \<open>true\<close> and changes nothing.
\<close>

theorem ensureClosingCoordinates_idempotent:
  assumes "lastRing (geometry gj) = Normal ring" and "length ring > 2"
  shows "(hd ring = last ring \<longrightarrow> ensureClosingCoordinates h gj = Normal (True,
      gj)) \<and>
         (differFixed h (hd ring) (last ring) \<longrightarrow>
            (\<exists>gj'. ensureClosingCoordinates h gj = Normal (True, gj') \<and>
                   lastRing (geometry gj') = Normal (ring @ [hd ring]) \<and>
                   ensureClosingCoordinates h gj' = Normal (True, gj')))"
proof (intro conjI impI)
  assume "hd ring = last ring"
  then show "ensureClosingCoordinates h gj = Normal (True, gj)"
    using ensureClosingCoordinates_long[OF assms, of h] differFixed_same[of h "last ring"]
    by simp
next
  assume d: "differFixed h (hd ring) (last ring)"
  let ?gj = "gj\<lparr>geometry := setLastRing (ring @ [hd ring]) (geometry gj)\<rparr>"
  from assms(2) have ne: "ring \<noteq> []" by auto
  have 1: "ensureClosingCoordinates h gj = Normal (True, ?gj)"
    using ensureClosingCoordinates_long[OF assms, of h] d by simp
  have 2: "lastRing (geometry ?gj) = Normal (ring @ [hd ring])"
    using lastRing_setLastRing[OF assms(1)] by simp
  have 3: "ensureClosingCoordinates h ?gj = Normal (True, ?gj)"
    using ensureClosingCoordinates_long[OF 2, of h] assms(2) ne differFixed_same[of h "hd ring"]
    by simp
  show "\<exists>gj'. ensureClosingCoordinates h gj = Normal (True, gj') \<and>
              lastRing (geometry gj') = Normal (ring @ [hd ring]) \<and>
              ensureClosingCoordinates h gj' = Normal (True, gj')"
    using 1 2 3 by blast
qed

theorem ensureClosingCoordinates_idempotent_witness:
  "ensureClosingCoordinates js
     \<lparr>geometry = Polygon [[(Finite 0, Finite 0), (Finite 1, Finite 0),
       (Finite 0, Finite 0)]],
      name = None\<rparr>
     = Normal (True,
         \<lparr>geometry = Polygon [[(Finite 0, Finite 0), (Finite 1, Finite 0),
           (Finite 0, Finite 0)]],
          name = None\<rparr>) \<and>
   (\<exists>gj'. ensureClosingCoordinates js
            \<lparr>geometry = Polygon [[(Finite 0, Finite 0), (Finite 1, Finite 0),
              (Finite 1, Finite 1)]],
             name = None\<rparr> = Normal (True, gj') \<and>
          lastRing (geometry gj')
            = Normal [(Finite 0, Finite 0), (Finite 1, Finite 0), (Finite 1, Finite 1),
                      (Finite 0, Finite 0)] \<and>
          ensureClosingCoordinates js gj' = Normal (True, gj'))"
proof -
  let ?r1 = "[(Finite 0, Finite 0), (Finite 1, Finite 0), (Finite 0, Finite 0)]"
  let ?r2 = "[(Finite 0, Finite 0), (Finite 1, Finite 0), (Finite 1, Finite 1)]"
  let ?g1 = "\<lparr>geometry = Polygon [?r1], name = None\<rparr>"
  let ?g2 = "\<lparr>geometry = Polygon [?r2], name = None\<rparr>"
  have a1: "lastRing (geometry ?g1) = Normal ?r1" by (simp add: lastRing_def)
  have a2: "lastRing (geometry ?g2) = Normal ?r2" by (simp add: lastRing_def)
  have d: "differFixed js (hd ?r2) (last ?r2)" by code_simp
  have 1: "ensureClosingCoordinates js ?g1 = Normal (True, ?g1)"
    using ensureClosingCoordinates_idempotent[OF a1, of js] by simp
  have 2: "\<exists>gj'. ensureClosingCoordinates js ?g2 = Normal (True, gj') \<and>
            lastRing (geometry gj') = Normal (?r2 @ [hd ?r2]) \<and>
            ensureClosingCoordinates js gj' = Normal (True, gj')"
    using ensureClosingCoordinates_idempotent[OF a2, of js] d by simp
  show ?thesis using 1 2 by simp
qed

subsection \<open>Reading a coordinate pair\<close>

text \<open>
  Claim C9, as the script has it. The tokens are those of the line split at the runs of
  two or more spaces, without the first. \<open>readCoordinatePair\<close> returns \<open>true\<close> only if
  two further tokens are there and \<open>parseFloat\<close> gives a number other than \<open>NaN\<close> for
  both, and then the pair has been appended to the last ring. If one of the two tokens
  is missing or gives \<open>NaN\<close>, it returns \<open>false\<close> and the GeoJSON object is unchanged.
  The test is \<open>Number.isNaN\<close>: an infinite value passes it.
\<close>

theorem readCoordinatePair_not_NaN:
  "(readCoordinatePair h fileLine s = Normal (True, s') \<longrightarrow>
      (let toks = tl (splitSpaces [] fileLine) in
       length toks \<ge> 2 \<and>
       \<not> isNaN h (parseFloat h (toks ! 0)) \<and> \<not> isNaN h (parseFloat h (toks ! 1)) \<and>
       pushPair (parseFloat h (toks ! 0), parseFloat h (toks ! 1)) (geometry (gjObj s))
         = Normal (geometry (gjObj s')))) \<and>
   ((let toks = tl (splitSpaces [] fileLine) in
       length toks < 2 \<or>
       isNaN h (parseFloat h (toks ! 0)) \<or> isNaN h (parseFloat h (toks ! 1))) \<longrightarrow>
      (\<exists>s'. readCoordinatePair h fileLine s = Normal (False,
          s') \<and> gjObj s' = gjObj s))"
proof -
  let ?xs = "splitSpaces [] fileLine"
  have len: "(length (splitLine3 fileLine) > 2) = (length (tl ?xs) \<ge> 2)"
    by (auto simp: splitLine3_def)
  have t1: "length (tl ?xs) \<ge> 2 \<Longrightarrow> splitLine3 fileLine ! 1 = tl ?xs ! 0"
    by (simp add: splitLine3_def nth_tl)
  have t2: "length (tl ?xs) \<ge> 2 \<Longrightarrow> splitLine3 fileLine ! 2 = tl ?xs ! 1"
    by (simp add: splitLine3_def nth_tl numeral_2_eq_2)
  show ?thesis
    unfolding readCoordinatePair_def Let_def len
    using t1 t2
    by (auto simp: setGeometry_def logError_def split: completion.splits)
qed

theorem readCoordinatePair_not_NaN_witness:
  "pushPair (jsParseFloat ''0.5'', jsParseFloat ''1.5'') (Polygon [[]])
     = Normal (Polygon [[(Finite (1 / 2), Finite (3 / 2))]]) \<and>
   (\<exists>s'. readCoordinatePair js '' 1  0.5  x''
            \<lparr>gjObj = \<lparr>geometry = Polygon [[]], name = None\<rparr>,
                console = []\<rparr> = Normal (False, s') \<and>
         gjObj s' = \<lparr>geometry = Polygon [[]], name = None\<rparr>)"
proof -
  let ?s = "\<lparr>gjObj = \<lparr>geometry = Polygon [[]], name = None\<rparr>,
      console = []\<rparr> :: number store"
  let ?s' = "\<lparr>gjObj = \<lparr>geometry = Polygon [[(Finite (1 / 2), Finite (3 / 2))]],
      name = None\<rparr>,
              console = []\<rparr> :: number store"
  have r: "readCoordinatePair js '' 1  0.5  1.5'' ?s = Normal (True, ?s')" by code_simp
  have t: "tl (splitSpaces [] '' 1  0.5  1.5'') = [''0.5'', ''1.5'']" by code_simp
  have b: "(let toks = tl (splitSpaces [] '' 1  0.5  x'') in
             length toks < 2 \<or>
             isNaN js (parseFloat js (toks ! 0)) \<or> isNaN js (parseFloat js (toks ! 1)))"
    by code_simp
  have 1: "pushPair (jsParseFloat ''0.5'', jsParseFloat ''1.5'') (Polygon [[]])
             = Normal (Polygon [[(Finite (1 / 2), Finite (3 / 2))]])"
    using readCoordinatePair_not_NaN[of js "'' 1  0.5  1.5''" ?s ?s'] r t
    by (simp add: js_def)
  have 2: "\<exists>s'. readCoordinatePair js '' 1  0.5  x'' ?s = Normal (False,
      s') \<and> gjObj s' = gjObj ?s"
    using readCoordinatePair_not_NaN[of js "'' 1  0.5  x''" ?s] b by blast
  show ?thesis using 1 2 by simp
qed

text \<open>
  A token that reads as \<open>Infinity\<close> is not a finite number, and the pair is appended.
\<close>

theorem readCoordinatePair_accepts_Infinity:
  "readCoordinatePair js ''1  Infinity  0.0''
      \<lparr>gjObj = \<lparr>geometry = Polygon [[]], name = None\<rparr>, console = []\<rparr>
     = Normal (True,
         \<lparr>gjObj = \<lparr>geometry = Polygon [[(PosInfinity, Finite 0)]],
             name = None\<rparr>, console = []\<rparr>) \<and>
   jsIsFinite (jsParseFloat ''Infinity'') = False"
  by code_simp

subsection \<open>An empty line after a ring\<close>

text \<open>
  Claim C10. In \<open>endExaminer\<close> an empty line is not rejected. It is not the end marker
  and does not begin with the subtract marker, so it is handled like any other line:
  a geometry of type Polygon becomes a MultiPolygon with the rings so far as its first
  polygon, a new polygon with one empty ring is appended, nothing is written to the
  console, and the next examiner is \<open>polygonExaminer\<close>.
\<close>

theorem endExaminer_empty_line:
  "endExaminer [] s =
     Normal (Some PolygonExaminer,
       s\<lparr>gjObj := (gjObj s)\<lparr>geometry :=
            (case geometry (gjObj s) of
               Polygon rs \<Rightarrow> MultiPolygon [rs, [[]]]
             | MultiPolygon ps \<Rightarrow> MultiPolygon (ps @ [[[]]]))\<rparr>\<rparr>)"
  by (simp add: endExaminer_def END_def SUBTRACT_def setGeometry_def split: geometry.splits)

subsection \<open>The example of the specification\<close>

text \<open>
  Claim C1, as the script has it. With two spaces between the tokens of each coordinate
  line, the example yields a Polygon with one ring of four pairs, the fourth equal to
  the first, \<open>[0, 0]\<close>.
\<close>

theorem example_two_spaces_one_ring:
  "readLines js
     [''boundary'', ''1'', '' 1  0.0  0.0'', '' 2  1.0  0.0'', '' 3  1.0  1.0'', ''END'', ''END'']
   = Resolved
       \<lparr>geometry = Polygon [[(Finite 0, Finite 0), (Finite 1, Finite 0),
         (Finite 1, Finite 1),
                              (Finite 0, Finite 0)]],
        name = Some ''boundary''\<rparr>"
  by code_simp

text \<open>
  With single spaces no line splits into three tokens: each of the four lines after the
  name opens an empty ring, and the result has four rings without a pair.
\<close>

theorem example_single_spaces_four_empty_rings:
  "readLines js
     [''boundary'', ''1'', '' 1 0.0 0.0'', '' 2 1.0 0.0'', '' 3 1.0 1.0'', ''END'', ''END'']
   = Resolved \<lparr>geometry = Polygon [[], [], [], []], name = Some ''boundary''\<rparr>"
  by code_simp

subsection \<open>When the caller gets a Feature\<close>

text \<open>
  Claim C2, as the script has it. The callback resolves with the GeoJSON object at the
  last line whenever the examiner it holds is not \<open>null\<close>; it never looks at which
  examiner that is. So \<open>readLines\<close> gives a Feature exactly when the file has at least
  one line and no examiner has returned \<open>null\<close> or thrown on any line, whatever
  examiner is current at the end. Once an examiner has returned \<open>null\<close> the result is
  the error, whatever lines follow: no Feature is surfaced.
\<close>

theorem readLines_resolved_iff:
  "(readLines h lines = Resolved gj) =
     (lines \<noteq> [] \<and>
      (\<exists>ex s. feed h FileExaminer initialStore lines = Normal (Some ex,
          s) \<and> gjObj s = gj)) \<and>
   (feed h FileExaminer initialStore pre = Normal (None, s') \<longrightarrow>
      readLines h (pre @ post) = Rejected)"
proof (intro conjI impI)
  show "(readLines h lines = Resolved gj) =
     (lines \<noteq> [] \<and>
      (\<exists>ex s. feed h FileExaminer initialStore lines = Normal (Some ex,
          s) \<and> gjObj s = gj))"
  proof (cases "lines = []")
    case True
    then show ?thesis by (simp add: readLines_def)
  next
    case False
    then show ?thesis
      by (auto simp: readLines_def eachLine_feed split: completion.splits option.splits)
  qed
next
  assume a: "feed h FileExaminer initialStore pre = Normal (None, s')"
  then have "pre \<noteq> []" by auto
  then have ne: "pre @ post \<noteq> []" by simp
  show "readLines h (pre @ post) = Rejected"
    unfolding readLines_def eachLine_feed[OF ne] feed_append a by simp
qed

theorem readLines_resolved_iff_witness:
  "readLines js [''boundary'', ''1'', '' 1  0.0  0.0'', ''END'', ''END''] = Rejected \<and>
   (\<exists>ex s. feed js FileExaminer initialStore [''boundary'', ''1''] = Normal (Some ex,
       s) \<and>
           gjObj s = \<lparr>geometry = Polygon [[]], name = Some ''boundary''\<rparr>)"
proof -
  have a: "feed js FileExaminer initialStore [''boundary'', ''1'', '' 1  0.0  0.0'', ''END'']
             = Normal (None,
                 \<lparr>gjObj = \<lparr>geometry = Polygon [[(Finite 0, Finite 0)]],
                     name = Some ''boundary''\<rparr>,
                  console = [InvalidPolygonCoordinates]\<rparr>)"
    by code_simp
  have b: "readLines js [''boundary'', ''1'']
             = Resolved \<lparr>geometry = Polygon [[]], name = Some ''boundary''\<rparr>"
    by code_simp
  have 1: "readLines js ([''boundary'', ''1'', '' 1  0.0  0.0'', ''END''] @ [''END'']) = Rejected"
    using readLines_resolved_iff[of js _ _ "[''boundary'', ''1'', '' 1  0.0  0.0'', ''END'']"
        _ "[''END'']"] a by blast
  have 2: "\<exists>ex s. feed js FileExaminer initialStore [''boundary'',
      ''1''] = Normal (Some ex, s) \<and>
           gjObj s = \<lparr>geometry = Polygon [[]], name = Some ''boundary''\<rparr>"
    using readLines_resolved_iff[of js "[''boundary'', ''1'']"
        "\<lparr>geometry = Polygon [[]], name = Some ''boundary''\<rparr>"] b by blast
  show ?thesis using 1 2 by simp
qed

text \<open>
  The file may end in the middle of a coordinate list: the caller gets the Feature with
  the ring left open, while the current examiner is \<open>coordinateExaminer\<close>.
\<close>

theorem readLines_resolves_mid_ring:
  "readLines js [''boundary'', ''1'', '' 1  0.0  0.0'']
     = Resolved \<lparr>geometry = Polygon [[(Finite 0, Finite 0)]],
         name = Some ''boundary''\<rparr> \<and>
   feed js FileExaminer initialStore [''boundary'', ''1'', '' 1  0.0  0.0'']
     = Normal (Some CoordinateExaminer,
         \<lparr>gjObj = \<lparr>geometry = Polygon [[(Finite 0, Finite 0)]],
             name = Some ''boundary''\<rparr>,
          console = []\<rparr>)"
  by code_simp

subsection \<open>Promotion to MultiPolygon\<close>

lemma pushPair_type:
  "pushPair p g = Normal g' \<Longrightarrow> isMultiPolygon g' = isMultiPolygon g"
  by (cases g) (auto simp: pushPair_def Let_def split: if_splits)

lemma pushRing_type:
  "pushRing g = Normal g' \<Longrightarrow> isMultiPolygon g' = isMultiPolygon g"
  by (cases g) (auto simp: pushRing_def split: if_splits)

lemma setLastRing_type [simp]:
  "isMultiPolygon (setLastRing r g) = isMultiPolygon g"
  by (cases g) (auto simp: setLastRing_def)

lemma ensureClosingCoordinates_type:
  "ensureClosingCoordinates h gj = Normal (b, gj') \<Longrightarrow>
   isMultiPolygon (geometry gj') = isMultiPolygon (geometry gj)"
  by (auto simp: ensureClosingCoordinates_def Let_def split: completion.splits if_splits)

lemma step_type:
  assumes "examine h ex l s = Normal (r, s')"
    and "\<not> (ex = EndExaminer \<and> l \<noteq> END \<and> take 1 l \<noteq> SUBTRACT)"
  shows "isMultiPolygon (geometry (gjObj s')) = isMultiPolygon (geometry (gjObj s))"
proof (cases ex)
  case FileExaminer
  then show ?thesis using assms
    by (auto simp: examine_def fileExaminer_def split: if_splits)
next
  case PolygonExaminer
  then show ?thesis using assms
    by (auto simp: examine_def polygonExaminer_eq pushRing_type pushPair_type
        split: if_splits completion.splits)
next
  case CoordinateExaminer
  then show ?thesis using assms
    by (auto simp: examine_def coordinateExaminer_eq pushRing_type pushPair_type
        ensureClosingCoordinates_type split: if_splits completion.splits)
next
  case EndExaminer
  then show ?thesis using assms
    by (auto simp: examine_def endExaminer_def pushRing_type
        split: if_splits completion.splits)
qed

lemma step_promote:
  assumes "l \<noteq> END" and "take 1 l \<noteq> SUBTRACT"
  shows "examine h EndExaminer l s =
           Normal (Some PolygonExaminer,
             setGeometry (case geometry (gjObj s) of
                            Polygon rs \<Rightarrow> MultiPolygon [rs, [[]]]
                          | MultiPolygon ps \<Rightarrow> MultiPolygon (ps @ [[[]]])) s)"
  using assms by (simp add: examine_def endExaminer_def split: geometry.splits)

lemma feed_type:
  "feed h ex s ls = Normal (r,
      s') \<Longrightarrow> isMultiPolygon (geometry (gjObj s)) \<Longrightarrow>
   isMultiPolygon (geometry (gjObj s'))"
proof (induction ls arbitrary: ex s)
  case Nil
  then show ?case by simp
next
  case (Cons l ls)
  show ?case
  proof (cases "examine h ex l s")
    case TypeError
    then show ?thesis using Cons.prems by simp
  next
    case (Normal a)
    obtain r1 s1 where a: "a = (r1, s1)" by (cases a)
    have t: "isMultiPolygon (geometry (gjObj s1))"
    proof (cases "ex = EndExaminer \<and> l \<noteq> END \<and> take 1 l \<noteq> SUBTRACT")
      case True
      then show ?thesis using step_promote[of l h s] Normal a Cons.prems(2)
        by (auto split: geometry.splits)
    next
      case False
      then show ?thesis using step_type[OF Normal[unfolded a] False] Cons.prems(2) by simp
    qed
    show ?thesis
    proof (cases r1)
      case None
      then show ?thesis using Cons.prems Normal a t by simp
    next
      case (Some ex1)
      then show ?thesis using Cons.prems Normal a t Cons.IH[of ex1 s1] by simp
    qed
  qed
qed


text \<open>
  Claim C4. The geometry starts as a Polygon without rings. A call of an examiner changes
  the type of the geometry only in \<open>endExaminer\<close>, on a line that is neither the end
  marker nor begins with the subtract marker: there a Polygon with rings \<open>rs\<close> becomes the
  MultiPolygon \<open>[rs, [[]]]\<close>, the rings so far being its first polygon unchanged, while
  a MultiPolygon only gets the new polygon \<open>[[]]\<close> appended and is not wrapped again.
  Every other call keeps the type, and once the type is MultiPolygon it stays so for
  the rest of the lines; hence the promotion happens at most once, at the first such line.
\<close>

theorem promotion_only_in_endExaminer:
  "geometry (gjObj (initialStore :: 'n store)) = Polygon [] \<and>
   (examine h ex inLine (s :: 'n store) = Normal (r, s') \<longrightarrow>
      (if ex = EndExaminer \<and> inLine \<noteq> END \<and> take 1 inLine \<noteq> SUBTRACT
       then r = Some PolygonExaminer \<and>
            geometry (gjObj s') =
              (case geometry (gjObj s) of
                 Polygon rs \<Rightarrow> MultiPolygon [rs, [[]]]
               | MultiPolygon ps \<Rightarrow> MultiPolygon (ps @ [[[]]]))
       else isMultiPolygon (geometry (gjObj s')) = isMultiPolygon (geometry (gjObj s)))) \<and>
   (feed h ex s lines = Normal (r',
       s'') \<longrightarrow> isMultiPolygon (geometry (gjObj s)) \<longrightarrow>
      isMultiPolygon (geometry (gjObj s'')))"
proof (intro conjI impI)
  show "geometry (gjObj (initialStore :: 'n store)) = Polygon []"
    by (simp add: initialStore_def)
next
  assume a: "examine h ex inLine s = Normal (r, s')"
  show "if ex = EndExaminer \<and> inLine \<noteq> END \<and> take 1 inLine \<noteq> SUBTRACT
       then r = Some PolygonExaminer \<and>
            geometry (gjObj s') =
              (case geometry (gjObj s) of
                 Polygon rs \<Rightarrow> MultiPolygon [rs, [[]]]
               | MultiPolygon ps \<Rightarrow> MultiPolygon (ps @ [[[]]]))
       else isMultiPolygon (geometry (gjObj s')) = isMultiPolygon (geometry (gjObj s))"
  proof (cases "ex = EndExaminer \<and> inLine \<noteq> END \<and> take 1 inLine \<noteq> SUBTRACT")
    case True
    have "r = Some PolygonExaminer \<and>
            geometry (gjObj s') =
              (case geometry (gjObj s) of
                 Polygon rs \<Rightarrow> MultiPolygon [rs, [[]]]
               | MultiPolygon ps \<Rightarrow> MultiPolygon (ps @ [[[]]]))"
      using True a step_promote[of inLine h s] by auto
    then show ?thesis by (simp only: True if_True simp_thms)
  next
    case False
    have "isMultiPolygon (geometry (gjObj s')) = isMultiPolygon (geometry (gjObj s))"
      using step_type[OF a False] .
    then show ?thesis by (simp only: False if_False)
  qed
next
  assume "feed h ex s lines = Normal (r', s'')" "isMultiPolygon (geometry (gjObj s))"
  then show "isMultiPolygon (geometry (gjObj s''))" by (rule feed_type)
qed

theorem promotion_only_in_endExaminer_witness:
  "geometry (gjObj (initialStore :: number store)) = Polygon [] \<and>
   examine js EndExaminer ''2''
       \<lparr>gjObj = \<lparr>geometry = Polygon [[]], name = None\<rparr>, console = []\<rparr>
     = Normal (Some PolygonExaminer,
         \<lparr>gjObj = \<lparr>geometry = MultiPolygon [[[]], [[]]], name = None\<rparr>,
             console = []\<rparr>) \<and>
   isMultiPolygon (geometry (gjObj
     (\<lparr>gjObj = \<lparr>geometry = MultiPolygon [[[]], [[]], [[]]], name = None\<rparr>,
       console = []\<rparr> :: number store)))"
proof -
  let ?s0 = "\<lparr>gjObj = \<lparr>geometry = Polygon [[]], name = None\<rparr>,
      console = []\<rparr> :: number store"
  let ?s1 = "\<lparr>gjObj = \<lparr>geometry = MultiPolygon [[[]], [[]]], name = None\<rparr>,
      console = []\<rparr>
               :: number store"
  let ?s2 = "\<lparr>gjObj = \<lparr>geometry = MultiPolygon [[[]], [[]], [[]]],
      name = None\<rparr>, console = []\<rparr>
               :: number store"
  have a: "examine js EndExaminer ''2'' ?s0 = Normal (Some PolygonExaminer, ?s1)"
    by code_simp
  have b: "feed js PolygonExaminer ?s1 [''END'', ''3''] = Normal (Some PolygonExaminer, ?s2)"
    by code_simp
  have c: "isMultiPolygon (geometry (gjObj ?s1))" by simp
  have e: "EndExaminer
      = EndExaminer \<and> ''2'' \<noteq> END \<and> take 1 ''2'' \<noteq> SUBTRACT"
    by (simp add: END_def SUBTRACT_def)
  note t1 = promotion_only_in_endExaminer[where h = js and ex = EndExaminer
      and inLine = "''2''" and s = ?s0 and r = "Some PolygonExaminer" and s' = ?s1]
  note t2 = promotion_only_in_endExaminer[where h = js and ex = PolygonExaminer and s = ?s1
      and lines = "[''END'', ''3'']" and r' = "Some PolygonExaminer" and s'' = ?s2]
  have 1: "geometry (gjObj (initialStore :: number store)) = Polygon []" using t1 by blast
  have 2: "geometry (gjObj ?s1) = MultiPolygon [[[]], [[]]]" using t1 a e by simp
  have 3: "isMultiPolygon (geometry (gjObj ?s2))" using t2 b c by blast
  show ?thesis using 1 a 3 by blast
qed

subsection \<open>The last ring under each examiner\<close>

lemma pushPair_eq:
  "pushPair p g =
     (case lastRing g of
        TypeError \<Rightarrow> TypeError
      | Normal r \<Rightarrow> Normal (setLastRing (r @ [p]) g))"
  by (cases g) (simp_all add: pushPair_def lastRing_def setLastRing_def Let_def)

lemma pushRing_Polygon [simp]: "pushRing (Polygon rs) = Normal (Polygon (rs @ [[]]))"
  by (simp add: pushRing_def)

lemma lastRing_Polygon [simp]:
  "lastRing (Polygon rs) = (if rs = [] then TypeError else Normal (last rs))"
  by (simp add: lastRing_def)

lemma pushRing_lastRing: "pushRing g = Normal g' \<Longrightarrow> lastRing g' = Normal []"
  by (cases g) (auto simp: pushRing_def lastRing_def split: if_splits)

lemma pushRing_after_lastRing:
  "lastRing g = Normal r \<Longrightarrow> \<exists>g'. pushRing g = Normal g'"
  by (cases g) (auto simp: pushRing_def lastRing_def split: if_splits)

lemma pushRing_allRings: "pushRing g = Normal g' \<Longrightarrow> allRings g' = allRings g @ [[]]"
proof (cases g)
  case (Polygon rs)
  assume "pushRing g = Normal g'"
  then show ?thesis using Polygon by (auto simp: allRings_def)
next
  case (MultiPolygon ps)
  assume a: "pushRing g = Normal g'"
  then have ne: "ps \<noteq> []" using MultiPolygon by (auto simp: pushRing_def split: if_splits)
  have "concat ps = concat (butlast ps) @ last ps"
    using ne by (metis append_butlast_last_id concat.simps(1,2) concat_append append_Nil2)
  then show ?thesis using a MultiPolygon ne by (auto simp: pushRing_def allRings_def)
qed

lemma lastRing_allRings:
  "lastRing g = Normal r \<Longrightarrow> allRings g \<noteq> [] \<and> last (allRings g) = r"
proof (cases g)
  case (Polygon rs)
  assume "lastRing g = Normal r"
  then show ?thesis using Polygon by (auto simp: allRings_def lastRing_def split: if_splits)
next
  case (MultiPolygon ps)
  assume a: "lastRing g = Normal r"
  then have ne: "ps \<noteq> []" "last ps \<noteq> []" "r = last (last ps)"
    using MultiPolygon by (auto simp: lastRing_def split: if_splits)
  have "concat ps = concat (butlast ps) @ last ps"
    using ne by (metis append_butlast_last_id concat.simps(1,2) concat_append append_Nil2)
  then show ?thesis using MultiPolygon ne by (auto simp: allRings_def)
qed

lemma allRings_setLastRing:
  "lastRing g = Normal r \<Longrightarrow> allRings (setLastRing x g) = butlast (allRings g) @ [x]"
proof (cases g)
  case (Polygon rs)
  assume "lastRing g = Normal r"
  then show ?thesis using Polygon by (auto simp: allRings_def setLastRing_def)
next
  case (MultiPolygon ps)
  assume a: "lastRing g = Normal r"
  then have ne: "ps \<noteq> []" "last ps \<noteq> []"
    using MultiPolygon by (auto simp: lastRing_def split: if_splits)
  have "concat ps = concat (butlast ps) @ last ps"
    using ne by (metis append_butlast_last_id concat.simps(1,2) concat_append append_Nil2)
  then show ?thesis using MultiPolygon ne
    by (auto simp: allRings_def setLastRing_def butlast_append)
qed

lemma ensureClosingCoordinates_eq:
  "ensureClosingCoordinates h gj =
     (case lastRing (geometry gj) of
        TypeError \<Rightarrow> TypeError
      | Normal ring \<Rightarrow>
          if length ring > 2 then
            Normal (True,
              if differFixed h (hd ring) (last ring)
              then gj\<lparr>geometry := setLastRing (ring @ [hd ring]) (geometry gj)\<rparr> else gj)
          else Normal (False, gj))"
proof (cases "lastRing (geometry gj)")
  case TypeError
  then show ?thesis by (simp add: ensureClosingCoordinates_def)
next
  case (Normal ring)
  show ?thesis
  proof (cases "length ring > 2")
    case True
    then show ?thesis using ensureClosingCoordinates_long[OF Normal True, of h] Normal by simp
  next
    case False
    then show ?thesis using ensureClosingCoordinates_short[OF Normal, of h] Normal by simp
  qed
qed

lemma step_ringInv:
  assumes "ringInv ex (geometry (gjObj s))" and "examine h ex l s = Normal (Some ex', s')"
  shows "ringInv ex' (geometry (gjObj s'))"
proof (cases ex)
  case FileExaminer
  then show ?thesis using assms
    by (auto simp: examine_def fileExaminer_def split: if_splits)
next
  case PolygonExaminer
  then show ?thesis using assms
    by (auto simp: examine_def polygonExaminer_eq pushPair_eq pushRing_lastRing
        lastRing_setLastRing split: if_splits completion.splits)
next
  case CoordinateExaminer
  then show ?thesis using assms
    by (auto simp: examine_def coordinateExaminer_eq pushPair_eq pushRing_lastRing
        lastRing_setLastRing ensureClosingCoordinates_eq split: if_splits completion.splits)
next
  case EndExaminer
  show ?thesis
  proof (cases "l = END")
    case True
    then show ?thesis using assms EndExaminer by (auto simp: examine_def endExaminer_def)
  next
    case notEnd: False
    show ?thesis
    proof (cases "take 1 l = SUBTRACT")
      case True
      then show ?thesis using assms EndExaminer notEnd
        by (auto simp: examine_def endExaminer_def pushRing_lastRing split: completion.splits)
    next
      case False
      have "lastRing (geometry (gjObj s')) = Normal []"
        using step_promote[OF notEnd False, of h s] assms(2) EndExaminer
        by (auto simp: lastRing_def split: geometry.splits)
      moreover have "ex' = PolygonExaminer"
        using step_promote[OF notEnd False, of h s] assms(2) EndExaminer by simp
      ultimately show ?thesis by simp
    qed
  qed
qed

lemma feed_ringInv:
  "ringInv ex (geometry (gjObj s)) \<Longrightarrow> feed h ex s ls = Normal (Some ex',
      s') \<Longrightarrow>
   ringInv ex' (geometry (gjObj s'))"
proof (induction ls arbitrary: ex s)
  case Nil
  then show ?case by simp
next
  case (Cons l ls)
  from Cons.prems(2) obtain ex1 s1 where
    st: "examine h ex l s = Normal (Some ex1,
        s1)" and rest: "feed h ex1 s1 ls = Normal (Some ex', s')"
    by (auto split: completion.splits option.splits)
  show ?case using Cons.IH[OF step_ringInv[OF Cons.prems(1) st] rest] .
qed

lemma reachable_ringInv:
  "feed h FileExaminer initialStore ls = Normal (Some ex,
      s) \<Longrightarrow> ringInv ex (geometry (gjObj s))"
  by (rule feed_ringInv[of FileExaminer initialStore]) (simp_all add: initialStore_def)



subsection \<open>The end marker and the length of the ring\<close>

text \<open>
  Claim C7, as the script has it. Take any lines read from the start of a file without
  failure, and let there be a last ring. If it has one or two pairs, the examiner in
  charge is \<open>coordinateExaminer\<close>, the end marker makes it write "Polygon coordinates
  not valid" and return \<open>null\<close>, and the caller gets the error whatever follows. If it
  has more than two pairs, the end marker is accepted and \<open>endExaminer\<close> is next; under
  \<open>coordinateExaminer\<close> this is \<open>ensureClosingCoordinates\<close> returning \<open>true\<close>. If it
  has no pair, the end marker fails only under \<open>coordinateExaminer\<close>: \<open>polygonExaminer\<close>
  and \<open>endExaminer\<close> accept it without looking at the ring.
\<close>

theorem end_marker_checks_ring_length:
  assumes "feed h FileExaminer initialStore lines = Normal (Some ex, s)"
    and "lastRing (geometry (gjObj s)) = Normal ring"
  shows "(length ring = 1 \<or> length ring = 2 \<longrightarrow>
            examine h ex END s = Normal (None, logError InvalidPolygonCoordinates s) \<and>
            readLines h (lines @ END # rest) = Rejected) \<and>
         (length ring > 2 \<longrightarrow>
            (\<exists>s'. examine h ex END s = Normal (Some EndExaminer, s') \<and>
                  (ex = CoordinateExaminer \<longrightarrow>
                     ensureClosingCoordinates h (gjObj s) = Normal (True, gjObj s')))) \<and>
         (ring = [] \<longrightarrow>
            examine h ex END s =
              (if ex = CoordinateExaminer
               then Normal (None, logError InvalidPolygonCoordinates s)
               else Normal (Some EndExaminer, s)))"
proof -
  have inv: "ringInv ex (geometry (gjObj s))" using reachable_ringInv[OF assms(1)] .
  have notFile: "ex \<noteq> FileExaminer" using inv assms(2) by auto
  have short: "examine h CoordinateExaminer END s = Normal (None,
      logError InvalidPolygonCoordinates s)"
    if "length ring \<le> 2"
    using ensureClosingCoordinates_short[OF assms(2) that, of h]
    by (simp add: examine_def coordinateExaminer_eq)
  have a: "examine h ex END s = Normal (None, logError InvalidPolygonCoordinates s) \<and>
            readLines h (lines @ END # rest) = Rejected"
    if l: "length ring = 1 \<or> length ring = 2"
  proof -
    have ex: "ex = CoordinateExaminer"
      using inv assms(2) l notFile by (cases ex) auto
    have 1: "examine h ex END s = Normal (None, logError InvalidPolygonCoordinates s)"
      using short l ex by auto
    have "readLines h (lines @ END # rest) = Rejected"
      using assms(1) 1 by (simp add: readLines_def eachLine_feed feed_append)
    then show ?thesis using 1 by simp
  qed
  have b: "\<exists>s'. examine h ex END s = Normal (Some EndExaminer, s') \<and>
                  (ex = CoordinateExaminer \<longrightarrow>
                     ensureClosingCoordinates h (gjObj s) = Normal (True, gjObj s'))"
    if l: "length ring > 2"
  proof (cases ex)
    case FileExaminer
    then show ?thesis using notFile by simp
  next
    case PolygonExaminer
    then show ?thesis using inv assms(2) l by auto
  next
    case CoordinateExaminer
    then show ?thesis using assms(2) l
      by (auto simp: examine_def coordinateExaminer_eq ensureClosingCoordinates_eq)
  next
    case EndExaminer
    then show ?thesis by (simp add: examine_def endExaminer_def)
  qed
  have c: "examine h ex END s =
              (if ex = CoordinateExaminer
               then Normal (None, logError InvalidPolygonCoordinates s)
               else Normal (Some EndExaminer, s))"
    if l: "ring = []"
  proof (cases ex)
    case FileExaminer
    then show ?thesis using notFile by simp
  next
    case PolygonExaminer
    then show ?thesis by (simp add: examine_def polygonExaminer_eq)
  next
    case CoordinateExaminer
    then show ?thesis using short l by simp
  next
    case EndExaminer
    then show ?thesis by (simp add: examine_def endExaminer_def)
  qed
  show ?thesis using a b c by blast
qed


theorem end_marker_checks_ring_length_witness:
  "readLines js ([''boundary'', ''1'', '' 1  0.0  0.0'',
      '' 2  1.0  0.0''] @ END # [''END'']) = Rejected \<and>
   (\<exists>s'. examine js CoordinateExaminer END
            \<lparr>gjObj = \<lparr>geometry = Polygon [[(Finite 0, Finite 0),
              (Finite 1, Finite 0), (Finite 1, Finite 1)]], name = Some ''boundary''\<rparr>,
             console = []\<rparr> = Normal (Some EndExaminer, s')) \<and>
   examine js PolygonExaminer END
      \<lparr>gjObj = \<lparr>geometry = Polygon [[(Finite 0, Finite 0), (Finite 1, Finite 0),
          (Finite 1, Finite 1), (Finite 0, Finite 0)], []], name = Some ''boundary''\<rparr>,
       console = []\<rparr>
     = Normal (Some EndExaminer,
         \<lparr>gjObj = \<lparr>geometry = Polygon [[(Finite 0, Finite 0), (Finite 1, Finite 0),
             (Finite 1, Finite 1), (Finite 0, Finite 0)], []], name = Some ''boundary''\<rparr>,
          console = []\<rparr>)"
proof -
  let ?s2 = "\<lparr>gjObj = \<lparr>geometry = Polygon [[(Finite 0, Finite 0),
    (Finite 1, Finite 0)]], name = Some ''boundary''\<rparr>,
              console = []\<rparr> :: number store"
  let ?s3 = "\<lparr>gjObj = \<lparr>geometry = Polygon [[(Finite 0, Finite 0),
    (Finite 1, Finite 0), (Finite 1, Finite 1)]], name = Some ''boundary''\<rparr>,
              console = []\<rparr> :: number store"
  let ?s0 = "\<lparr>gjObj = \<lparr>geometry = Polygon [[(Finite 0, Finite 0),
    (Finite 1, Finite 0), (Finite 1, Finite 1), (Finite 0, Finite 0)],
      []], name = Some ''boundary''\<rparr>,
              console = []\<rparr> :: number store"
  have f2: "feed js FileExaminer initialStore [''boundary'', ''1'', '' 1  0.0  0.0'',
      '' 2  1.0  0.0'']
              = Normal (Some CoordinateExaminer, ?s2)"
    by code_simp
  have f3: "feed js FileExaminer initialStore [''boundary'', ''1'', '' 1  0.0  0.0'',
      '' 2  1.0  0.0'', '' 3  1.0  1.0'']
              = Normal (Some CoordinateExaminer, ?s3)"
    by code_simp
  have f0: "feed js FileExaminer initialStore [''boundary'', ''1'', '' 1  0.0  0.0'',
      '' 2  1.0  0.0'', '' 3  1.0  1.0'', ''END'', ''!2'']
              = Normal (Some PolygonExaminer, ?s0)"
    by code_simp
  have l2: "lastRing (geometry (gjObj ?s2)) = Normal [(Finite 0, Finite 0),
    (Finite 1, Finite 0)]" by (simp add: lastRing_def)
  have l3: "lastRing (geometry (gjObj ?s3)) = Normal [(Finite 0, Finite 0), (Finite 1, Finite 0),
      (Finite 1, Finite 1)]" by (simp add: lastRing_def)
  have l0: "lastRing (geometry (gjObj ?s0)) = Normal []" by (simp add: lastRing_def)
  have 1: "readLines js ([''boundary'', ''1'', '' 1  0.0  0.0'',
      '' 2  1.0  0.0''] @ END # [''END'']) = Rejected"
    using end_marker_checks_ring_length[OF f2 l2, of "[''END'']"] by simp
  have 2: "\<exists>s'. examine js CoordinateExaminer END ?s3 = Normal (Some EndExaminer, s')"
    using end_marker_checks_ring_length[OF f3 l3] by auto
  have 3: "examine js PolygonExaminer END ?s0 = Normal (Some EndExaminer, ?s0)"
    using end_marker_checks_ring_length[OF f0 l0] by simp
  show ?thesis using 1 2 3 by blast
qed

text \<open>
  A hole that is opened and ended at once has no pair when its end marker is read, and
  the file is accepted: the Feature has an empty second ring.
\<close>

theorem empty_ring_passes_end_marker:
  "feed js FileExaminer initialStore [''boundary'', ''1'', '' 1  0.0  0.0'', '' 2  1.0  0.0'',
      '' 3  1.0  1.0'', ''END'', ''!2'']
     = Normal (Some PolygonExaminer,
         \<lparr>gjObj = \<lparr>geometry = Polygon [[(Finite 0, Finite 0), (Finite 1, Finite 0),
             (Finite 1, Finite 1), (Finite 0, Finite 0)], []], name = Some ''boundary''\<rparr>,
          console = []\<rparr>) \<and>
   readLines js [''boundary'', ''1'', '' 1  0.0  0.0'', '' 2  1.0  0.0'', '' 3  1.0  1.0'',
       ''END'', ''!2'', ''END'', ''END'']
     = Resolved \<lparr>geometry = Polygon [[(Finite 0, Finite 0), (Finite 1, Finite 0),
         (Finite 1, Finite 1), (Finite 0, Finite 0)], []], name = Some ''boundary''\<rparr>"
  by code_simp

subsection \<open>A line that is neither a pair nor the end marker\<close>

text \<open>
  Claim C8. Take any lines read from the start of a file after which
  \<open>coordinateExaminer\<close> is current, and a next line that is not empty, not the end
  marker and not a coordinate line (its second or third token is missing or gives
  \<open>NaN\<close>). The examiner does not return \<open>null\<close> and does not throw: it appends an
  empty ring to the current polygon (the ring list of a Polygon, the last polygon of a
  MultiPolygon, which exists) and returns \<open>polygonExaminer\<close>. The console gets the
  "could not parse float" line with the two tokens when both tokens are there, and
  nothing otherwise.
\<close>

theorem coordinateExaminer_other_line_opens_ring:
  assumes "feed h FileExaminer initialStore lines = Normal (Some CoordinateExaminer, s)"
    and "inLine \<noteq> []" and "inLine \<noteq> END" and "\<not> isCoordinatePair h inLine"
  shows "coordinateExaminer h inLine s =
           Normal (Some PolygonExaminer,
             s\<lparr>gjObj := (gjObj s)\<lparr>geometry :=
                  (case geometry (gjObj s) of
                     Polygon rs \<Rightarrow> Polygon (rs @ [[]])
                   | MultiPolygon ps \<Rightarrow> MultiPolygon (butlast ps @ [last ps @ [[]]]))\<rparr>,
               console := console s @ parseErrors inLine\<rparr>) \<and>
         geometry (gjObj s) \<noteq> MultiPolygon []"
proof -
  have inv: "lastRing (geometry (gjObj s)) \<noteq> TypeError"
    using reachable_ringInv[OF assms(1)] by simp
  then have ne: "geometry (gjObj s) \<noteq> MultiPolygon []" by (auto simp: lastRing_def)
  then have "pushRing (geometry (gjObj s)) =
      Normal (case geometry (gjObj s) of
                     Polygon rs \<Rightarrow> Polygon (rs @ [[]])
                   | MultiPolygon ps \<Rightarrow> MultiPolygon (butlast ps @ [last ps @ [[]]]))"
    by (auto simp: pushRing_def split: geometry.splits)
  then show ?thesis using assms(2-4) ne
    by (simp add: coordinateExaminer_eq setGeometry_def)
qed


theorem coordinateExaminer_other_line_opens_ring_witness:
  "coordinateExaminer js ''9  x  y''
      \<lparr>gjObj = \<lparr>geometry = Polygon [[(Finite 0, Finite 0)]],
          name = Some ''boundary''\<rparr>, console = []\<rparr>
     = Normal (Some PolygonExaminer,
         \<lparr>gjObj = \<lparr>geometry = Polygon [[(Finite 0, Finite 0)], []],
             name = Some ''boundary''\<rparr>,
          console = [CouldNotParseFloat ''x'' ''y'']\<rparr>)"
proof -
  let ?s = "\<lparr>gjObj = \<lparr>geometry = Polygon [[(Finite 0, Finite 0)]],
      name = Some ''boundary''\<rparr>,
             console = []\<rparr> :: number store"
  have f: "feed js FileExaminer initialStore [''boundary'', ''1'', '' 1  0.0  0.0'']
             = Normal (Some CoordinateExaminer, ?s)"
    by code_simp
  have a: "''9  x  y'' \<noteq> []" by simp
  have b: "''9  x  y'' \<noteq> END" by (simp add: END_def)
  have c: "\<not> isCoordinatePair js ''9  x  y''" by code_simp
  have p: "parseErrors ''9  x  y'' = [CouldNotParseFloat ''x'' ''y'']" by code_simp
  show ?thesis
    using coordinateExaminer_other_line_opens_ring[OF f a b c] p by simp
qed

subsection \<open>Rings that have been closed\<close>

lemma take_keep_le:
  assumes "take (length fr) xs = fr"
  shows "length fr \<le> length xs"
proof -
  have "length (take (length fr) xs) = length fr" by (simp only: assms)
  then show ?thesis by (simp add: min_def split: if_splits)
qed

lemma pushPair_keeps:
  assumes "take (length fr) (allRings g) = fr" and "length fr < length (allRings g)"
    and "pushPair p g = Normal g'"
  shows "take (length fr) (allRings g') = fr \<and> length fr < length (allRings g')"
proof -
  obtain r where lr: "lastRing g = Normal r" and g': "g' = setLastRing (r @ [p]) g"
    using assms(3) by (cases "lastRing g") (auto simp: pushPair_eq)
  have "allRings g' = butlast (allRings g) @ [r @ [p]]"
    using allRings_setLastRing[OF lr] g' by simp
  then show ?thesis using assms(1,2) by (simp add: take_butlast)
qed

lemma pushRing_keeps:
  assumes "take (length fr) (allRings g) = fr" and "pushRing g = Normal g'"
  shows "take (length fr) (allRings g') = fr \<and> length fr < length (allRings g')"
  using assms take_keep_le[OF assms(1)] pushRing_allRings[OF assms(2)] by simp

lemma closing_keeps:
  assumes "take (length fr) (allRings (geometry gj)) = fr"
    and "length fr < length (allRings (geometry gj))"
    and "ensureClosingCoordinates h gj = Normal (b, gj')"
  shows "take (length fr) (allRings (geometry gj')) = fr"
proof -
  obtain r where lr: "lastRing (geometry gj) = Normal r"
    using assms(3) by (cases "lastRing (geometry gj)") (auto simp: ensureClosingCoordinates_eq)
  have "gj' = gj \<or> geometry gj' = setLastRing (r @ [hd r]) (geometry gj)"
    using assms(3) lr by (auto simp: ensureClosingCoordinates_eq split: if_splits)
  then show ?thesis
  proof
    assume "gj' = gj"
    then show ?thesis using assms(1) by simp
  next
    assume "geometry gj' = setLastRing (r @ [hd r]) (geometry gj)"
    then have "allRings (geometry gj') = butlast (allRings (geometry gj)) @ [r @ [hd r]]"
      using allRings_setLastRing[OF lr] by simp
    then show ?thesis using assms(1,2) by (simp add: take_butlast)
  qed
qed

lemma step_keepsRings:
  assumes "keepsRings fr ex (geometry (gjObj s))" and "examine h ex l s = Normal (r, s')"
  shows "case r of Some ex' \<Rightarrow> keepsRings fr ex' (geometry (gjObj s'))
         | None \<Rightarrow> take (length fr) (allRings (geometry (gjObj s'))) = fr"
proof (cases ex)
  case FileExaminer
  then show ?thesis using assms by simp
next
  case PolygonExaminer
  then have k: "take (length fr) (allRings (geometry (gjObj s))) = fr"
      "length fr < length (allRings (geometry (gjObj s)))"
    using assms(1) by simp_all
  have st: "polygonExaminer h l s = Normal (r, s')"
    using assms(2) PolygonExaminer by (simp add: examine_def)
  consider (e) "l = END" | (c) "l \<noteq> END" "isCoordinatePair h l"
    | (m) "l \<noteq> END" "\<not> isCoordinatePair h l" "l \<noteq> []"
    | (n) "l \<noteq> END" "\<not> isCoordinatePair h l" "l = []" by blast
  then show ?thesis
  proof cases
    case e
    then show ?thesis using st k by (auto simp: polygonExaminer_eq)
  next
    case c
    then obtain g where g: "pushPair (pairOf h l) (geometry (gjObj s)) = Normal g"
      and r: "r = Some CoordinateExaminer" "s' = setGeometry g s"
      using st by (auto simp: polygonExaminer_eq split: completion.splits)
    show ?thesis using pushPair_keeps[OF k g] r by simp
  next
    case m
    then obtain g where g: "pushRing (geometry (gjObj s)) = Normal g"
      and r: "r = Some CoordinateExaminer" "geometry (gjObj s') = g"
      using st by (auto simp: polygonExaminer_eq split: completion.splits)
    show ?thesis using pushRing_keeps[OF k(1) g] r by simp
  next
    case n
    then show ?thesis using st k by (auto simp: polygonExaminer_eq)
  qed
next
  case CoordinateExaminer
  then have k: "take (length fr) (allRings (geometry (gjObj s))) = fr"
      "length fr < length (allRings (geometry (gjObj s)))"
    using assms(1) by simp_all
  have st: "coordinateExaminer h l s = Normal (r, s')"
    using assms(2) CoordinateExaminer by (simp add: examine_def)
  consider (e) "l = END" | (c) "l \<noteq> END" "isCoordinatePair h l"
    | (m) "l \<noteq> END" "\<not> isCoordinatePair h l" "l \<noteq> []"
    | (n) "l \<noteq> END" "\<not> isCoordinatePair h l" "l = []" by blast
  then show ?thesis
  proof cases
    case e
    then obtain b gj where c: "ensureClosingCoordinates h (gjObj s) = Normal (b, gj)"
      and r: "r = (if b then Some EndExaminer else None)" "gjObj s' = gj"
      using st by (auto simp: coordinateExaminer_eq split: completion.splits if_splits)
    show ?thesis using closing_keeps[OF k c] r by simp
  next
    case c
    then obtain g where g: "pushPair (pairOf h l) (geometry (gjObj s)) = Normal g"
      and r: "r = Some CoordinateExaminer" "s' = setGeometry g s"
      using st by (auto simp: coordinateExaminer_eq split: completion.splits)
    show ?thesis using pushPair_keeps[OF k g] r by simp
  next
    case m
    then obtain g where g: "pushRing (geometry (gjObj s)) = Normal g"
      and r: "r = Some PolygonExaminer" "geometry (gjObj s') = g"
      using st by (auto simp: coordinateExaminer_eq split: completion.splits)
    show ?thesis using pushRing_keeps[OF k(1) g] r by simp
  next
    case n
    then show ?thesis using st k by (auto simp: coordinateExaminer_eq)
  qed
next
  case EndExaminer
  then have k: "take (length fr) (allRings (geometry (gjObj s))) = fr"
    using assms(1) by simp
  show ?thesis
  proof (cases "l = END")
    case True
    then show ?thesis using assms EndExaminer by (auto simp: examine_def endExaminer_def)
  next
    case notEnd: False
    show ?thesis
    proof (cases "take 1 l = SUBTRACT")
      case True
      then obtain g where g: "pushRing (geometry (gjObj s)) = Normal g"
        and r: "r = Some PolygonExaminer" "geometry (gjObj s') = g"
        using assms(2) EndExaminer notEnd
        by (auto simp: examine_def endExaminer_def split: completion.splits)
      show ?thesis using pushRing_keeps[OF k g] r by simp
    next
      case False
      have "allRings (geometry (gjObj s')) = allRings (geometry (gjObj s)) @ [[]]"
        using step_promote[OF notEnd False, of h s] assms(2) EndExaminer
        by (auto simp: allRings_def split: geometry.splits)
      moreover have "r = Some PolygonExaminer"
        using step_promote[OF notEnd False, of h s] assms(2) EndExaminer by simp
      ultimately show ?thesis using k take_keep_le[OF k] by simp
    qed
  qed
qed

lemma keepsRings_take:
  "keepsRings fr ex g \<Longrightarrow> take (length fr) (allRings g) = fr"
  by (cases ex) auto

lemma feed_keepsRings:
  "keepsRings fr ex (geometry (gjObj s)) \<Longrightarrow> feed h ex s ls = Normal (r,
      s') \<Longrightarrow>
   take (length fr) (allRings (geometry (gjObj s'))) = fr"
proof (induction ls arbitrary: ex s)
  case Nil
  then show ?case using keepsRings_take by auto
next
  case (Cons l ls)
  from Cons.prems(2) obtain r1 s1 where st: "examine h ex l s = Normal (r1, s1)"
    by (auto split: completion.splits)
  note k = step_keepsRings[OF Cons.prems(1) st]
  show ?case
  proof (cases r1)
    case None
    then show ?thesis using k st Cons.prems(2) by simp
  next
    case (Some ex1)
    then show ?thesis using k st Cons.prems(2) Cons.IH[of ex1 s1] by simp
  qed
qed


text \<open>
  Claim C3, as the script has it. When \<open>coordinateExaminer\<close> reads the end marker
  without failing, the next examiner is \<open>endExaminer\<close> and the ring just ended, the
  last of all rings, has at least three pairs, its first and last pair having the same
  \<open>toFixed(12)\<close> texts. From then on all rings present at that moment stay as they are,
  whatever lines follow and whether or not the rest of the file is accepted. Rings
  ended in another way (an end marker read by \<open>polygonExaminer\<close>, or a line that opens
  the next ring) are not checked.
\<close>

theorem closed_ring_stays_closed:
  assumes "coordinateExaminer h END s = Normal (Some ex, s')"
  shows "ex = EndExaminer \<and>
         (\<exists>ring. lastRing (geometry (gjObj s'))
             = Normal ring \<and> length ring \<ge> 3 \<and>
                 \<not> differFixed h (hd ring) (last ring) \<and>
                 last (allRings (geometry (gjObj s'))) = ring) \<and>
         (\<forall>rest r s''. feed h EndExaminer s' rest = Normal (r, s'') \<longrightarrow>
            take (length (allRings (geometry (gjObj s')))) (allRings (geometry (gjObj s'')))
              = allRings (geometry (gjObj s')))"
proof -
  obtain ring where lr: "lastRing (geometry (gjObj s)) = Normal ring"
    using assms by (cases "lastRing (geometry (gjObj s))")
      (auto simp: coordinateExaminer_eq ensureClosingCoordinates_eq)
  have len: "length ring > 2"
    using assms lr by (auto simp: coordinateExaminer_eq ensureClosingCoordinates_eq split: if_splits)
  then have ne: "ring \<noteq> []" by auto
  let ?ring' = "if differFixed h (hd ring) (last ring) then ring @ [hd ring] else ring"
  have ex: "ex = EndExaminer"
    using assms lr len by (auto simp: coordinateExaminer_eq ensureClosingCoordinates_eq split: if_splits)
  have lr': "lastRing (geometry (gjObj s')) = Normal ?ring'"
    using assms lr len lastRing_setLastRing[OF lr]
    by (auto simp: coordinateExaminer_eq ensureClosingCoordinates_eq split: if_splits)
  have closed: "\<not> differFixed h (hd ?ring') (last ?ring')"
    using ne differFixed_same[of h "hd ring"] by auto
  have 2: "\<exists>ring. lastRing (geometry (gjObj s'))
      = Normal ring \<and> length ring \<ge> 3 \<and>
                 \<not> differFixed h (hd ring) (last ring) \<and>
                 last (allRings (geometry (gjObj s'))) = ring"
    using lr' closed len lastRing_allRings[OF lr'] by (intro exI[of _ ?ring']) auto
  have k: "keepsRings (allRings (geometry (gjObj s'))) EndExaminer (geometry (gjObj s'))"
    by simp
  have 3: "\<forall>rest r s''. feed h EndExaminer s' rest = Normal (r, s'') \<longrightarrow>
            take (length (allRings (geometry (gjObj s')))) (allRings (geometry (gjObj s'')))
              = allRings (geometry (gjObj s'))"
    using feed_keepsRings[OF k] by blast
  show ?thesis using ex 2 3 by blast
qed

theorem closed_ring_stays_closed_witness:
  "(\<exists>ring. lastRing (Polygon [[(Finite 0, Finite 0), (Finite 1, Finite 0),
    (Finite 1, Finite 1), (Finite 0, Finite 0)]]) = Normal ring \<and> length ring \<ge> 3 \<and>
           \<not> differFixed js (hd ring) (last ring) \<and>
           last (allRings (Polygon [[(Finite 0, Finite 0), (Finite 1, Finite 0),
             (Finite 1, Finite 1), (Finite 0, Finite 0)]])) = ring) \<and>
   take 1 (allRings (Polygon [[(Finite 0, Finite 0), (Finite 1, Finite 0), (Finite 1, Finite 1),
       (Finite 0, Finite 0)], [(Finite 1, Finite 0)]])) = [[(Finite 0, Finite 0),
         (Finite 1, Finite 0), (Finite 1, Finite 1), (Finite 0, Finite 0)]]"
proof -
  let ?s = "\<lparr>gjObj = \<lparr>geometry = Polygon [[(Finite 0, Finite 0),
    (Finite 1, Finite 0), (Finite 1, Finite 1)]], name = Some ''boundary''\<rparr>,
             console = []\<rparr> :: number store"
  let ?s' = "\<lparr>gjObj = \<lparr>geometry = Polygon [[(Finite 0, Finite 0),
    (Finite 1, Finite 0), (Finite 1, Finite 1),
      (Finite 0, Finite 0)]], name = Some ''boundary''\<rparr>,
             console = []\<rparr> :: number store"
  let ?s'' = "\<lparr>gjObj = \<lparr>geometry = Polygon [[(Finite 0, Finite 0),
    (Finite 1, Finite 0), (Finite 1, Finite 1), (Finite 0, Finite 0)], [(Finite 1, Finite 0)]],
          name = Some ''boundary''\<rparr>,
             console = [InvalidPolygonCoordinates]\<rparr> :: number store"
  have a: "coordinateExaminer js END ?s = Normal (Some EndExaminer, ?s')" by code_simp
  have b: "feed js EndExaminer ?s' [''!2'', '' 2  1.0  0.0'', ''END''] = Normal (None,
      ?s'')" by code_simp
  have g: "geometry (gjObj ?s') = Polygon [[(Finite 0, Finite 0), (Finite 1, Finite 0),
      (Finite 1, Finite 1), (Finite 0, Finite 0)]]" by simp
  have n: "length (allRings (Polygon [[(Finite 0, Finite 0), (Finite 1, Finite 0),
    (Finite 1, Finite 1), (Finite 0, Finite 0)]])) = 1" by (simp add: allRings_def)
  note t = closed_ring_stays_closed[OF a]
  have 1: "\<exists>ring. lastRing (Polygon [[(Finite 0, Finite 0), (Finite 1, Finite 0),
      (Finite 1, Finite 1), (Finite 0, Finite 0)]]) = Normal ring \<and> length ring \<ge> 3 \<and>
           \<not> differFixed js (hd ring) (last ring) \<and>
           last (allRings (Polygon [[(Finite 0, Finite 0), (Finite 1, Finite 0),
             (Finite 1, Finite 1), (Finite 0, Finite 0)]])) = ring"
    using t by (simp only: g)
  have "take (length (allRings (geometry (gjObj ?s')))) (allRings (geometry (gjObj ?s'')))
          = allRings (geometry (gjObj ?s'))"
    using t b by blast
  then have 2: "take 1 (allRings (Polygon [[(Finite 0, Finite 0), (Finite 1, Finite 0),
      (Finite 1, Finite 1), (Finite 0, Finite 0)],
        [(Finite 1, Finite 0)]])) = [[(Finite 0, Finite 0), (Finite 1, Finite 0),
          (Finite 1, Finite 1), (Finite 0, Finite 0)]]"
    by (simp add: allRings_def)
  show ?thesis using 1 2 by blast
qed

text \<open>
  A ring left by a line that opens the next one, and a ring ended under
  \<open>polygonExaminer\<close>, reach the caller with one pair and with none.
\<close>

theorem unchecked_rings_are_returned:
  "readLines js [''boundary'', ''1'', '' 1  0.0  0.0'', ''x'', ''END'', ''END'']
     = Resolved \<lparr>geometry = Polygon [[(Finite 0, Finite 0)], []],
         name = Some ''boundary''\<rparr>"
  by code_simp

subsection \<open>Files with several outer-ring groups\<close>

lemma splitLine3_END: "splitLine3 END = [''END'']"
  by (simp add: splitLine3_def END_def)

lemma splitLine3_Nil: "splitLine3 [] = [[]]"
  by (simp add: splitLine3_def)

lemma isCoordinatePair_not_END: "isCoordinatePair h l \<Longrightarrow> l \<noteq> END"
  by (auto simp: isCoordinatePair_def splitLine3_END)

lemma isCoordinatePair_not_Nil: "isCoordinatePair h l \<Longrightarrow> l \<noteq> []"
  by (auto simp: isCoordinatePair_def splitLine3_Nil)

lemma setLastRing_same: "lastRing g = Normal r \<Longrightarrow> setLastRing r g = g"
  by (cases g) (auto simp: lastRing_def setLastRing_def split: if_splits)

lemma setLastRing_setLastRing [simp]: "setLastRing a (setLastRing b g) = setLastRing a g"
  by (cases g) (auto simp: setLastRing_def)

lemma runsTo_Nil: "runsTo h ex s [] ex (geometry (gjObj s))"
  by (simp add: runsTo_def)

lemma runsTo_append:
  assumes "runsTo h ex s xs ex1 g1"
    and "\<And>s1. geometry (gjObj s1) = g1 \<Longrightarrow> runsTo h ex1 s1 ys ex2 g2"
  shows "runsTo h ex s (xs @ ys) ex2 g2"
proof -
  obtain s1 where 1: "feed h ex s xs = Normal (Some ex1, s1)"
    and g1: "gjObj s1 = (gjObj s)\<lparr>geometry := g1\<rparr>"
    using assms(1) by (auto simp: runsTo_def)
  have "geometry (gjObj s1) = g1" using g1 by simp
  then obtain s2 where 2: "feed h ex1 s1 ys = Normal (Some ex2, s2)"
    and g2: "gjObj s2 = (gjObj s1)\<lparr>geometry := g2\<rparr>"
    using assms(2)[of s1] by (auto simp: runsTo_def)
  have "feed h ex s (xs @ ys) = Normal (Some ex2, s2)" using 1 2 by (simp add: feed_append)
  moreover have "gjObj s2 = (gjObj s)\<lparr>geometry := g2\<rparr>" using g1 g2 by simp
  ultimately show ?thesis by (auto simp: runsTo_def)
qed

lemma runsTo_Cons:
  assumes "runsTo h ex s [x] ex1 g1"
    and "\<And>s1. geometry (gjObj s1) = g1 \<Longrightarrow> runsTo h ex1 s1 ys ex2 g2"
  shows "runsTo h ex s (x # ys) ex2 g2"
  using runsTo_append[OF assms(1), of ys ex2 g2] assms(2) by simp

lemma step_pair:
  assumes "ex = PolygonExaminer \<or> ex = CoordinateExaminer"
    and "isCoordinatePair h l" and "lastRing (geometry (gjObj s)) = Normal r"
  shows "runsTo h ex s [l] CoordinateExaminer (setLastRing (r @ [pairOf h l]) (geometry (gjObj s)))"
  using assms isCoordinatePair_not_END[OF assms(2)]
  by (auto simp: runsTo_def examine_def polygonExaminer_eq coordinateExaminer_eq pushPair_eq
      setGeometry_def)

lemma step_header_polygonExaminer:
  assumes "l \<noteq> END" and "\<not> isCoordinatePair h l" and "l \<noteq> []"
    and "pushRing (geometry (gjObj s)) = Normal g'"
  shows "runsTo h PolygonExaminer s [l] CoordinateExaminer g'"
  using assms by (auto simp: runsTo_def examine_def polygonExaminer_eq setGeometry_def)

lemma step_END_coordinateExaminer:
  assumes "lastRing (geometry (gjObj s)) = Normal r" and "length r > 2"
  shows "runsTo h CoordinateExaminer s [END] EndExaminer
           (setLastRing (closedRing h r) (geometry (gjObj s)))"
  using assms setLastRing_same[OF assms(1)]
  by (auto simp: runsTo_def examine_def coordinateExaminer_eq ensureClosingCoordinates_eq
      closedRing_def)

lemma step_hole_header:
  assumes "l \<noteq> END" and "take 1 l = SUBTRACT" and "pushRing (geometry (gjObj s)) = Normal g'"
  shows "runsTo h EndExaminer s [l] PolygonExaminer g'"
  using assms by (auto simp: runsTo_def examine_def endExaminer_def setGeometry_def)

lemma step_outer_header:
  assumes "l \<noteq> END" and "take 1 l \<noteq> SUBTRACT"
  shows "runsTo h EndExaminer s [l] PolygonExaminer
           (MultiPolygon (polygons (geometry (gjObj s)) @ [[[]]]))"
  using assms
  by (auto simp: runsTo_def examine_def endExaminer_def setGeometry_def split: geometry.splits)

lemma run_pairs:
  assumes "list_all (isCoordinatePair h) cs" and "lastRing (geometry (gjObj s)) = Normal r"
  shows "runsTo h CoordinateExaminer s cs CoordinateExaminer
           (setLastRing (r @ map (pairOf h) cs) (geometry (gjObj s)))"
  using assms
proof (induction cs arbitrary: s r)
  case Nil
  then show ?case
    using runsTo_Nil[of h CoordinateExaminer s] setLastRing_same[of "geometry (gjObj s)" r]
    by simp
next
  case (Cons c cs)
  let ?g1 = "setLastRing (r @ [pairOf h c]) (geometry (gjObj s))"
  have c: "isCoordinatePair h c" and cs: "list_all (isCoordinatePair h) cs"
    using Cons.prems(1) by simp_all
  have 1: "runsTo h CoordinateExaminer s [c] CoordinateExaminer ?g1"
    using step_pair[OF _ c Cons.prems(2)] by simp
  have 2: "runsTo h CoordinateExaminer s1 cs CoordinateExaminer
             (setLastRing (r @ map (pairOf h) (c # cs)) (geometry (gjObj s)))"
    if g: "geometry (gjObj s1) = ?g1" for s1
  proof -
    have lr: "lastRing (geometry (gjObj s1)) = Normal (r @ [pairOf h c])"
      using g lastRing_setLastRing[OF Cons.prems(2)] by simp
    show ?thesis using Cons.IH[OF cs lr] g by simp
  qed
  show ?case using runsTo_Cons[OF 1 2] .
qed

lemma run_ring:
  assumes "ex = PolygonExaminer \<or> ex = CoordinateExaminer"
    and "list_all (isCoordinatePair h) cs" and "length cs \<ge> 3"
    and "lastRing (geometry (gjObj s)) = Normal []"
  shows "runsTo h ex s (cs @ [END]) EndExaminer
           (setLastRing (closedRing h (map (pairOf h) cs)) (geometry (gjObj s)))"
proof -
  obtain c cs' where cs: "cs = c # cs'" using assms(3) by (cases cs) auto
  let ?g = "geometry (gjObj s)"
  let ?g1 = "setLastRing [pairOf h c] ?g"
  let ?g2 = "setLastRing (map (pairOf h) cs) ?g"
  have c: "isCoordinatePair h c" and cs': "list_all (isCoordinatePair h) cs'"
    using assms(2) cs by simp_all
  have 1: "runsTo h ex s [c] CoordinateExaminer ?g1"
    using step_pair[OF assms(1) c assms(4)] by simp
  have 2: "runsTo h CoordinateExaminer s1 cs' CoordinateExaminer ?g2"
    if g: "geometry (gjObj s1) = ?g1" for s1
  proof -
    have lr: "lastRing (geometry (gjObj s1)) = Normal [pairOf h c]"
      using g lastRing_setLastRing[OF assms(4)] by simp
    show ?thesis using run_pairs[OF cs' lr] g cs by simp
  qed
  have 3: "runsTo h CoordinateExaminer s2 [END] EndExaminer
             (setLastRing (closedRing h (map (pairOf h) cs)) ?g)"
    if g: "geometry (gjObj s2) = ?g2" for s2
  proof -
    have lr: "lastRing (geometry (gjObj s2)) = Normal (map (pairOf h) cs)"
      using g lastRing_setLastRing[OF assms(4)] by simp
    have "length (map (pairOf h) cs) > 2" using assms(3) by simp
    from step_END_coordinateExaminer[OF lr this] show ?thesis using g by simp
  qed
  have "runsTo h ex s ([c] @ cs' @ [END]) EndExaminer
          (setLastRing (closedRing h (map (pairOf h) cs)) ?g)"
    using runsTo_append[OF 1 runsTo_append[OF 2 3]] by blast
  then show ?thesis using cs by simp
qed

lemma pushRing_MultiPolygon_snoc [simp]:
  "pushRing (MultiPolygon (qs @ [q])) = Normal (MultiPolygon (qs @ [q @ [[]]]))"
  by (simp add: pushRing_def)

lemma lastRing_snoc [simp]:
  "lastRing (Polygon (rs @ [r])) = Normal r"
  "lastRing (MultiPolygon (qs @ [q @ [r]])) = Normal r"
  by (simp_all add: lastRing_def)

lemma setLastRing_snoc [simp]:
  "setLastRing x (Polygon (rs @ [r])) = Polygon (rs @ [x])"
  "setLastRing x (MultiPolygon (qs @ [q @ [r]])) = MultiPolygon (qs @ [q @ [x]])"
  by (simp_all add: setLastRing_def)

text \<open>A section read by polygonExaminer, when the geometry is a Polygon.\<close>

lemma run_first_section:
  assumes "wfSection h sec" and "geometry (gjObj s) = Polygon rs"
  shows "runsTo h PolygonExaminer s (sectionLines sec) EndExaminer
           (Polygon (rs @ [sectionRing h sec]))"
proof -
  have hd: "fst sec \<noteq> END" "\<not> isCoordinatePair h (fst sec)" "fst sec \<noteq> []"
    and cs: "list_all (isCoordinatePair h) (snd sec)" "length (snd sec) \<ge> 3"
    using assms(1) by (simp_all add: wfSection_def)
  have 1: "runsTo h PolygonExaminer s [fst sec] CoordinateExaminer (Polygon (rs @ [[]]))"
    using step_header_polygonExaminer[OF hd, of s] assms(2) by simp
  have 2: "runsTo h CoordinateExaminer s1 (snd sec @ [END]) EndExaminer
             (Polygon (rs @ [sectionRing h sec]))"
    if g: "geometry (gjObj s1) = Polygon (rs @ [[]])" for s1
    using run_ring[OF _ cs, of CoordinateExaminer s1] g by (simp add: sectionRing_def)
  show ?thesis using runsTo_Cons[OF 1 2] by (simp add: sectionLines_def)
qed

text \<open>A hole section read after an end marker.\<close>

lemma run_hole_Polygon:
  assumes "wfHole h sec" and "geometry (gjObj s) = Polygon rs"
  shows "runsTo h EndExaminer s (sectionLines sec) EndExaminer
           (Polygon (rs @ [sectionRing h sec]))"
proof -
  have hd: "fst sec \<noteq> END" "take 1 (fst sec) = SUBTRACT"
    and cs: "list_all (isCoordinatePair h) (snd sec)" "length (snd sec) \<ge> 3"
    using assms(1) by (simp_all add: wfHole_def wfSection_def)
  have 1: "runsTo h EndExaminer s [fst sec] PolygonExaminer (Polygon (rs @ [[]]))"
    using step_hole_header[OF hd, of s] assms(2) by simp
  have 2: "runsTo h PolygonExaminer s1 (snd sec @ [END]) EndExaminer
             (Polygon (rs @ [sectionRing h sec]))"
    if g: "geometry (gjObj s1) = Polygon (rs @ [[]])" for s1
    using run_ring[OF _ cs, of PolygonExaminer s1] g by (simp add: sectionRing_def)
  show ?thesis using runsTo_Cons[OF 1 2] by (simp add: sectionLines_def)
qed

lemma run_hole_MultiPolygon:
  assumes "wfHole h sec" and "geometry (gjObj s) = MultiPolygon (qs @ [q])"
  shows "runsTo h EndExaminer s (sectionLines sec) EndExaminer
           (MultiPolygon (qs @ [q @ [sectionRing h sec]]))"
proof -
  have hd: "fst sec \<noteq> END" "take 1 (fst sec) = SUBTRACT"
    and cs: "list_all (isCoordinatePair h) (snd sec)" "length (snd sec) \<ge> 3"
    using assms(1) by (simp_all add: wfHole_def wfSection_def)
  have 1: "runsTo h EndExaminer s [fst sec] PolygonExaminer (MultiPolygon (qs @ [q @ [[]]]))"
    using step_hole_header[OF hd, of s] assms(2) by simp
  have 2: "runsTo h PolygonExaminer s1 (snd sec @ [END]) EndExaminer
             (MultiPolygon (qs @ [q @ [sectionRing h sec]]))"
    if g: "geometry (gjObj s1) = MultiPolygon (qs @ [q @ [[]]])" for s1
    using run_ring[OF _ cs, of PolygonExaminer s1] g by (simp add: sectionRing_def)
  show ?thesis using runsTo_Cons[OF 1 2] by (simp add: sectionLines_def)
qed

lemma run_holes_Polygon:
  assumes "list_all (wfHole h) holes" and "geometry (gjObj s) = Polygon rs"
  shows "runsTo h EndExaminer s (concat (map sectionLines holes)) EndExaminer
           (Polygon (rs @ map (sectionRing h) holes))"
  using assms
proof (induction holes arbitrary: s rs)
  case Nil
  then show ?case using runsTo_Nil[of h EndExaminer s] by simp
next
  case (Cons sec holes)
  have 1: "runsTo h EndExaminer s (sectionLines sec) EndExaminer
             (Polygon (rs @ [sectionRing h sec]))"
    using run_hole_Polygon[of h sec s rs] Cons.prems by simp
  have 2: "runsTo h EndExaminer s1 (concat (map sectionLines holes)) EndExaminer
             (Polygon (rs @ map (sectionRing h) (sec # holes)))"
    if g: "geometry (gjObj s1) = Polygon (rs @ [sectionRing h sec])" for s1
    using Cons.IH[of s1 "rs @ [sectionRing h sec]"] Cons.prems(1) g by simp
  show ?case using runsTo_append[OF 1 2] by simp
qed

lemma run_holes_MultiPolygon:
  assumes "list_all (wfHole h) holes" and "geometry (gjObj s) = MultiPolygon (qs @ [q])"
  shows "runsTo h EndExaminer s (concat (map sectionLines holes)) EndExaminer
           (MultiPolygon (qs @ [q @ map (sectionRing h) holes]))"
  using assms
proof (induction holes arbitrary: s q)
  case Nil
  then show ?case using runsTo_Nil[of h EndExaminer s] by simp
next
  case (Cons sec holes)
  have 1: "runsTo h EndExaminer s (sectionLines sec) EndExaminer
             (MultiPolygon (qs @ [q @ [sectionRing h sec]]))"
    using run_hole_MultiPolygon[of h sec s qs q] Cons.prems by simp
  have 2: "runsTo h EndExaminer s1 (concat (map sectionLines holes)) EndExaminer
             (MultiPolygon (qs @ [q @ map (sectionRing h) (sec # holes)]))"
    if g: "geometry (gjObj s1) = MultiPolygon (qs @ [q @ [sectionRing h sec]])" for s1
    using Cons.IH[of s1 "q @ [sectionRing h sec]"] Cons.prems(1) g by simp
  show ?case using runsTo_append[OF 1 2] by simp
qed

text \<open>The first group of a file: read from polygonExaminer into the empty Polygon.\<close>

lemma run_first_group:
  assumes "wfGroup h grp" and "geometry (gjObj s) = Polygon []"
  shows "runsTo h PolygonExaminer s (groupLines grp) EndExaminer (Polygon (groupRings h grp))"
proof -
  have w: "wfSection h (fst grp)" "list_all (wfHole h) (snd grp)"
    using assms(1) by (simp_all add: wfGroup_def)
  have 1: "runsTo h PolygonExaminer s (sectionLines (fst grp)) EndExaminer
             (Polygon ([] @ [sectionRing h (fst grp)]))"
    using run_first_section[OF w(1) assms(2)] .
  have 2: "runsTo h EndExaminer s1 (concat (map sectionLines (snd grp))) EndExaminer
             (Polygon (groupRings h grp))"
    if g: "geometry (gjObj s1) = Polygon ([] @ [sectionRing h (fst grp)])" for s1
    using run_holes_Polygon[OF w(2), of s1 "[sectionRing h (fst grp)]"] g
    by (simp add: groupRings_def)
  show ?thesis using runsTo_append[OF 1 2] by (simp add: groupLines_def)
qed

text \<open>A later group: its header promotes a Polygon and opens a new polygon.\<close>

lemma run_next_group:
  assumes "wfGroup h grp"
  shows "runsTo h EndExaminer s (groupLines grp) EndExaminer
           (MultiPolygon (polygons (geometry (gjObj s)) @ [groupRings h grp]))"
proof -
  let ?ps = "polygons (geometry (gjObj s))"
  have w: "wfSection h (fst grp)" "list_all (wfHole h) (snd grp)"
    and hd: "fst (fst grp) \<noteq> END" "take 1 (fst (fst grp)) \<noteq> SUBTRACT"
    and cs: "list_all (isCoordinatePair h) (snd (fst grp))" "length (snd (fst grp)) \<ge> 3"
    using assms(1) by (simp_all add: wfGroup_def wfSection_def)
  have 1: "runsTo h EndExaminer s [fst (fst grp)] PolygonExaminer (MultiPolygon (?ps @ [[[]]]))"
    using step_outer_header[OF hd] .
  have 2: "runsTo h PolygonExaminer s1 (snd (fst grp) @ [END]) EndExaminer
             (MultiPolygon (?ps @ [[sectionRing h (fst grp)]]))"
    if g: "geometry (gjObj s1) = MultiPolygon (?ps @ [[[]]])" for s1
  proof -
    have g': "geometry (gjObj s1) = MultiPolygon (?ps @ [[] @ [[]]])" using g by simp
    show ?thesis
      using run_ring[OF _ cs, of PolygonExaminer s1] g' lastRing_snoc(2)[of ?ps "[]" "[]"]
        setLastRing_snoc(2)[of _ ?ps "[]" "[]"]
      by (simp add: sectionRing_def)
  qed
  have 12: "runsTo h EndExaminer s (sectionLines (fst grp)) EndExaminer
             (MultiPolygon (?ps @ [[sectionRing h (fst grp)]]))"
    using runsTo_Cons[OF 1 2] by (simp add: sectionLines_def)
  have 3: "runsTo h EndExaminer s2 (concat (map sectionLines (snd grp))) EndExaminer
             (MultiPolygon (?ps @ [groupRings h grp]))"
    if g: "geometry (gjObj s2) = MultiPolygon (?ps @ [[sectionRing h (fst grp)]])" for s2
    using run_holes_MultiPolygon[OF w(2) g] by (simp add: groupRings_def)
  show ?thesis using runsTo_append[OF 12 3] by (simp add: groupLines_def)
qed

lemma run_groups:
  assumes "list_all (wfGroup h) groups" and "geometry (gjObj s) = MultiPolygon ps"
  shows "runsTo h EndExaminer s (concat (map groupLines groups)) EndExaminer
           (MultiPolygon (ps @ map (groupRings h) groups))"
  using assms
proof (induction groups arbitrary: s ps)
  case Nil
  then show ?case using runsTo_Nil[of h EndExaminer s] by simp
next
  case (Cons grp groups)
  have 1: "runsTo h EndExaminer s (groupLines grp) EndExaminer
             (MultiPolygon (ps @ [groupRings h grp]))"
    using run_next_group[of h grp s] Cons.prems by simp
  have 2: "runsTo h EndExaminer s1 (concat (map groupLines groups)) EndExaminer
             (MultiPolygon (ps @ map (groupRings h) (grp # groups)))"
    if g: "geometry (gjObj s1) = MultiPolygon (ps @ [groupRings h grp])" for s1
    using Cons.IH[of s1 "ps @ [groupRings h grp]"] Cons.prems(1) g by simp
  show ?case using runsTo_append[OF 1 2] by simp
qed

lemma readLines_name_body_END:
  assumes "nm \<noteq> []"
    and "\<And>s. geometry (gjObj s)
        = Polygon [] \<Longrightarrow> runsTo h PolygonExaminer s body EndExaminer g"
  shows "readLines h (nm # body @ [END]) = Resolved \<lparr>geometry = g, name = Some nm\<rparr>"
proof -
  let ?s1 = "initialStore\<lparr>gjObj := (gjObj initialStore)\<lparr>name := Some nm\<rparr>\<rparr> :: 'a store"
  have 1: "examine h FileExaminer nm initialStore = Normal (Some PolygonExaminer, ?s1)"
    using assms(1) by (simp add: examine_def fileExaminer_def)
  have g1: "gjObj ?s1 = \<lparr>geometry = Polygon [], name = Some nm\<rparr>"
    by (simp add: initialStore_def)
  then have "geometry (gjObj ?s1) = Polygon []" by simp
  then obtain s2 where 2: "feed h PolygonExaminer ?s1 body = Normal (Some EndExaminer, s2)"
    and g2: "gjObj s2 = (gjObj ?s1)\<lparr>geometry := g\<rparr>"
    using assms(2)[of ?s1] by (auto simp: runsTo_def)
  have 3: "feed h EndExaminer s2 [END] = Normal (Some EndExaminer, s2)"
    by (simp add: examine_def endExaminer_def)
  have f: "feed h FileExaminer initialStore (nm # body @ [END]) = Normal (Some EndExaminer, s2)"
    using 1 2 3 by (simp add: feed_append)
  have g: "gjObj s2 = \<lparr>geometry = g, name = Some nm\<rparr>" using g1 g2 by simp
  have ne: "nm # body @ [END] \<noteq> []" by simp
  show ?thesis unfolding readLines_def eachLine_feed[OF ne] f by (simp add: g)
qed

text \<open>
  Claim C5. Take a file made of a non-empty name, two or more well-formed outer-ring
  groups and the final end marker. The caller gets a MultiPolygon whose entries are the
  ring lists of the groups, one entry per group in the order of the file, and the first
  entry is the ring list of the Polygon obtained from the file made of the name, the
  first group alone and the final end marker.
\<close>

theorem multipolygon_entry_per_group:
  assumes "nm \<noteq> []" and "list_all (wfGroup h) groups" and "length groups \<ge> 2"
  shows "readLines h (polyFile nm groups)
           = Resolved \<lparr>geometry = MultiPolygon (map (groupRings h) groups),
               name = Some nm\<rparr> \<and>
         length (map (groupRings h) groups) = length groups \<and>
         readLines h (polyFile nm [hd groups])
           = Resolved \<lparr>geometry = Polygon (hd (map (groupRings h) groups)),
               name = Some nm\<rparr>"
proof -
  obtain g1 g2 rest where gs: "groups = g1 # g2 # rest"
    using assms(3) by (cases groups; cases "tl groups") auto
  have w: "wfGroup h g1" "wfGroup h g2" "list_all (wfGroup h) rest"
    using assms(2) gs by simp_all
  have first: "runsTo h PolygonExaminer s (groupLines g1) EndExaminer (Polygon (groupRings h g1))"
    if "geometry (gjObj s) = Polygon []" for s
    using run_first_group[OF w(1) that] .
  have second: "runsTo h EndExaminer s1 (groupLines g2) EndExaminer
                  (MultiPolygon [groupRings h g1, groupRings h g2])"
    if "geometry (gjObj s1) = Polygon (groupRings h g1)" for s1
    using run_next_group[OF w(2), of s1] that by simp
  have others: "runsTo h EndExaminer s2 (concat (map groupLines rest)) EndExaminer
                  (MultiPolygon (map (groupRings h) groups))"
    if "geometry (gjObj s2) = MultiPolygon [groupRings h g1, groupRings h g2]" for s2
    using run_groups[OF w(3) that] gs by simp
  have all: "runsTo h PolygonExaminer s
               (groupLines g1 @ groupLines g2 @ concat (map groupLines rest)) EndExaminer
               (MultiPolygon (map (groupRings h) groups))"
    if g: "geometry (gjObj s) = Polygon []" for s
    using runsTo_append[OF first[OF g] runsTo_append[OF second others]] by blast
  have 1: "readLines h (polyFile nm groups)
             = Resolved \<lparr>geometry = MultiPolygon (map (groupRings h) groups),
                 name = Some nm\<rparr>"
    using readLines_name_body_END[OF assms(1) all] gs by (simp add: polyFile_def)
  have 2: "readLines h (polyFile nm [hd groups])
             = Resolved \<lparr>geometry = Polygon (hd (map (groupRings h) groups)),
                 name = Some nm\<rparr>"
    using readLines_name_body_END[OF assms(1) first] gs by (simp add: polyFile_def)
  show ?thesis using 1 2 by simp
qed

theorem multipolygon_entry_per_group_witness:
  "readLines js
     [''boundary'',
      ''1'', '' 1  0.0  0.0'', '' 2  4.0  0.0'', '' 3  4.0  4.0'', ''END'',
      ''!2'', '' 1  1.0  1.0'', '' 2  2.0  1.0'', '' 3  2.0  2.0'', '' 4  1.0  1.0'', ''END'',
      ''3'', '' 1  5.0  5.0'', '' 2  6.0  5.0'', '' 3  6.0  6.0'', ''END'',
      ''END'']
   = Resolved
       \<lparr>geometry = MultiPolygon
          [[[(Finite 0, Finite 0), (Finite 4, Finite 0), (Finite 4, Finite 4),
            (Finite 0, Finite 0)],
            [(Finite 1, Finite 1), (Finite 2, Finite 1), (Finite 2, Finite 2),
              (Finite 1, Finite 1)]],
           [[(Finite 5, Finite 5), (Finite 6, Finite 5), (Finite 6, Finite 6),
             (Finite 5, Finite 5)]]],
        name = Some ''boundary''\<rparr> \<and>
   readLines js
     [''boundary'',
      ''1'', '' 1  0.0  0.0'', '' 2  4.0  0.0'', '' 3  4.0  4.0'', ''END'',
      ''!2'', '' 1  1.0  1.0'', '' 2  2.0  1.0'', '' 3  2.0  2.0'', '' 4  1.0  1.0'', ''END'',
      ''END'']
   = Resolved
       \<lparr>geometry = Polygon
          [[(Finite 0, Finite 0), (Finite 4, Finite 0), (Finite 4, Finite 4), (Finite 0, Finite 0)],
           [(Finite 1, Finite 1), (Finite 2, Finite 1), (Finite 2, Finite 2),
             (Finite 1, Finite 1)]],
        name = Some ''boundary''\<rparr>"
proof -
  let ?G = "[((''1'', ['' 1  0.0  0.0'', '' 2  4.0  0.0'', '' 3  4.0  4.0'']),
              [(''!2'', ['' 1  1.0  1.0'', '' 2  2.0  1.0'', '' 3  2.0  2.0'', '' 4  1.0  1.0''])]),
             ((''3'', ['' 1  5.0  5.0'', '' 2  6.0  5.0'', '' 3  6.0  6.0'']), [])]"
  have a: "''boundary'' \<noteq> []" by simp
  have b: "list_all (wfGroup js) ?G" by code_simp
  have c: "length ?G \<ge> 2" by simp
  have e1: "polyFile ''boundary'' ?G =
     [''boundary'',
      ''1'', '' 1  0.0  0.0'', '' 2  4.0  0.0'', '' 3  4.0  4.0'', ''END'',
      ''!2'', '' 1  1.0  1.0'', '' 2  2.0  1.0'', '' 3  2.0  2.0'', '' 4  1.0  1.0'', ''END'',
      ''3'', '' 1  5.0  5.0'', '' 2  6.0  5.0'', '' 3  6.0  6.0'', ''END'',
      ''END'']"
    by code_simp
  have e2: "polyFile ''boundary'' [hd ?G] =
     [''boundary'',
      ''1'', '' 1  0.0  0.0'', '' 2  4.0  0.0'', '' 3  4.0  4.0'', ''END'',
      ''!2'', '' 1  1.0  1.0'', '' 2  2.0  1.0'', '' 3  2.0  2.0'', '' 4  1.0  1.0'', ''END'',
      ''END'']"
    by code_simp
  have e3: "map (groupRings js) ?G =
          [[[(Finite 0, Finite 0), (Finite 4, Finite 0), (Finite 4, Finite 4),
            (Finite 0, Finite 0)],
            [(Finite 1, Finite 1), (Finite 2, Finite 1), (Finite 2, Finite 2),
              (Finite 1, Finite 1)]],
           [[(Finite 5, Finite 5), (Finite 6, Finite 5), (Finite 6, Finite 6),
             (Finite 5, Finite 5)]]]"
    by code_simp
  note t = multipolygon_entry_per_group[OF a b c]
  have 1: "readLines js (polyFile ''boundary'' ?G)
           = Resolved \<lparr>geometry = MultiPolygon (map (groupRings js) ?G),
               name = Some ''boundary''\<rparr>"
    using t by blast
  have 2: "readLines js (polyFile ''boundary'' [hd ?G])
           = Resolved \<lparr>geometry = Polygon (hd (map (groupRings js) ?G)),
               name = Some ''boundary''\<rparr>"
    using t by blast
  show ?thesis using 1 2 unfolding e1 e2 e3 by simp
qed

end
